theory Spec2Isabelle
  imports Complex_Main
begin

section \<open>Data model of \<open>analysis_ml_methods.py\<close>\<close>

text \<open>
  The script works on a pandas data frame \<open>df_clean\<close> and hands numeric arrays to
  scikit-learn, statsmodels and numpy.  A float is a real number or NaN (\<open>None\<close>); the
  sums, differences, products and means the script asks for are taken on the reals.
  A column has a dtype and one cell per row (\<open>Category\<close> and \<open>Object\<close> stand for the
  dtypes that are not numeric; their cells are not read as numbers by the script); a
  frame is the ordered list of its named columns, a name being looked up from the left.
  A frame is \<open>rectangular\<close> when its columns have one length.  Matrices handed to the
  linear solvers are kept column by column (\<open>np.column_stack\<close>, \<open>sm.add_constant\<close>
  work on columns), the covariate matrix of the X-learner row by row (the forests
  predict row by row).
\<close>

type_synonym pyfloat = "real option"

datatype dtype = Int8 | Int16 | Int32 | Int64 | Float32 | Float64 | Bool | Category | Object

record column =
  col_dtype :: dtype
  col_cells :: "pyfloat list"

type_synonym frame = "(string \<times> column) list"

type_synonym matrix = "pyfloat list list"

datatype py_error = KeyError | IndexError | ValueError | AttributeError

definition bind_err :: "'e + 'a \<Rightarrow> ('a \<Rightarrow> 'e + 'b) \<Rightarrow> 'e + 'b" where
  "bind_err m f = (case m of Inl e \<Rightarrow> Inl e | Inr v \<Rightarrow> f v)"

definition columns :: "frame \<Rightarrow> string list" where
  "columns df = map fst df"

definition get_column :: "frame \<Rightarrow> string \<Rightarrow> py_error + column" where
  "get_column df c = (case map_of df c of None \<Rightarrow> Inl KeyError | Some col \<Rightarrow> Inr col)"

definition values_of :: "frame \<Rightarrow> string \<Rightarrow> py_error + pyfloat list" where
  "values_of df c = bind_err (get_column df c) (\<lambda>col. Inr (col_cells col))"

fun select_columns :: "frame \<Rightarrow> string list \<Rightarrow> py_error + matrix" where
  "select_columns df [] = Inr []"
| "select_columns df (c # cs) =
     (case values_of df c of
        Inl e \<Rightarrow> Inl e
      | Inr v \<Rightarrow> (case select_columns df cs of Inl e \<Rightarrow> Inl e | Inr m \<Rightarrow> Inr (v # m)))"

definition nrows :: "frame \<Rightarrow> nat" where
  "nrows df = (case df of [] \<Rightarrow> 0 | (c, col) # rest \<Rightarrow> length (col_cells col))"

definition rectangular :: "frame \<Rightarrow> bool" where
  "rectangular df = list_all (\<lambda>(c, col). length (col_cells col) = nrows df) df"

subsection \<open>The fitted models, as parameters\<close>

text \<open>
  The solvers and the numeric reductions are not code of the repository.  Each is a
  parameter: what it returns for the arrays the script passes, or the exception it
  raises.  \<open>'m\<close> is a fitted regression forest, \<open>'c\<close> a fitted classification forest.
  The least-squares fit (\<open>sm.OLS(...).fit\<close>) takes the covariance type it is asked for
  and is taken to return its parameter, standard-error and p-value vectors.
  \<open>series_std\<close> is pandas' \<open>Series.std()\<close>, the binary64 number (or NaN) it computes
  for a column; \<open>np_std\<close>, \<open>np_median\<close> and \<open>np_percentile\<close> are numpy's
  reductions of an array.
\<close>

text \<open>
  \<open>np.random.choice(n, k, replace=False)\<close>, called right after \<open>np.random.seed(s)\<close>,
  returns \<open>k\<close> different positions below \<open>n\<close> (it needs \<open>k \<le> n\<close>).  A \<open>draw\<close>
  is any function of the seed, \<open>n\<close> and \<open>k\<close> with this property; which positions
  numpy's generator picks, and with what probability, is not recorded.
\<close>

typedef draw =
  "{f :: nat \<Rightarrow> nat \<Rightarrow> nat \<Rightarrow> nat list.
      \<forall>seed n k. k \<le> n \<longrightarrow>
        length (f seed n k) = k \<and> distinct (f seed n k) \<and> set (f seed n k) \<subseteq> {..<n}}"
proof
  show "(\<lambda>seed n k. [0..<k]) \<in>
      {f :: nat \<Rightarrow> nat \<Rightarrow> nat \<Rightarrow> nat list.
        \<forall>seed n k. k \<le> n \<longrightarrow>
          length (f seed n k) = k \<and> distinct (f seed n k) \<and> set (f seed n k) \<subseteq> {..<n}}"
    by auto
qed

setup_lifting type_definition_draw

record ols_results =
  params :: "real list"
  bse :: "real list"
  pvalues :: "real list"

datatype cov_type = Cluster "pyfloat list" | HC1

record ('m, 'c) library =
  scaler_fit_transform :: "matrix \<Rightarrow> py_error + matrix"
  lasso_cv_fit :: "matrix \<Rightarrow> pyfloat list \<Rightarrow> py_error + real list"
  logistic_cv_fit :: "matrix \<Rightarrow> pyfloat list \<Rightarrow> py_error + real list"
  ols_fit :: "cov_type \<Rightarrow> matrix \<Rightarrow> pyfloat list \<Rightarrow> ols_results"
  series_std :: "pyfloat list \<Rightarrow> pyfloat"
  random_choice :: draw
  np_std :: "real list \<Rightarrow> real"
  np_median :: "real list \<Rightarrow> real"
  np_percentile :: "real list \<Rightarrow> real \<Rightarrow> real"
  forest_regressor_fit :: "nat \<Rightarrow> matrix \<Rightarrow> pyfloat list \<Rightarrow> py_error + 'm"
  forest_predict :: "'m \<Rightarrow> pyfloat list \<Rightarrow> real"
  forest_classifier_fit :: "nat \<Rightarrow> matrix \<Rightarrow> pyfloat list \<Rightarrow> py_error + 'c"
  forest_predict_proba :: "'c \<Rightarrow> pyfloat list \<Rightarrow> real list"

section \<open>Post-double-selection LASSO (lines 131 to 237)\<close>

definition exclude_cols :: "string list" where
  "exclude_cols =
     [''ln_wage'', ''agri_post'', ''idind'', ''psu'', ''id'', ''inn'', ''wage_month'',
      ''wage'', ''industry'', ''region'', ''inwgt'', ''occupation'', ''occup'', ''occup08'',
      ''h5'', ''h6'', ''j1'', ''j10'', ''j4_1'', ''j8'', ''j11'', ''educ'', ''marst'',
      ''int_y'', ''interview_month'', ''h7_1'', ''h7_2'']"

text \<open>\<open>dtype in ['int64', 'float64', 'int32', 'float32', 'int', 'float']\<close>: the last two
  names are the platform's 64-bit types.\<close>

definition ds_numeric :: "dtype \<Rightarrow> bool" where
  "ds_numeric t = (t = Int64 \<or> t = Float64 \<or> t = Int32 \<or> t = Float32)"

definition isna_any :: "pyfloat list \<Rightarrow> bool" where
  "isna_any cs = (None \<in> set cs)"

text \<open>\<open>np.mean\<close>\<close>

definition mean :: "real list \<Rightarrow> real" where
  "mean xs = sum_list xs / real (length xs)"

text \<open>The loop of lines 141 to 151 over \<open>df_clean.columns\<close>; each \<open>continue\<close> is a
  branch that goes on with the remaining names.  For a name that labels more than one
  column, \<open>df_clean[c]\<close> is a frame, which has no attribute \<open>dtype\<close>: line 145 raises
  AttributeError.  The test of line 149, \<open>df_clean[c].std() == 0\<close>, compares the number
  pandas computes with 0 (NaN is not equal to 0).\<close>

fun control_cols_loop :: "('m, 'c) library \<Rightarrow> frame \<Rightarrow> string list \<Rightarrow> py_error + string list" where
  "control_cols_loop lib df [] = Inr []"
| "control_cols_loop lib df (c # cs) =
     (if c \<in> set exclude_cols then control_cols_loop lib df cs
      else if 1 < count_list (columns df) c then Inl AttributeError
      else (case get_column df c of
          Inl e \<Rightarrow> Inl e
        | Inr col \<Rightarrow>
            if \<not> ds_numeric (col_dtype col) then control_cols_loop lib df cs
            else if isna_any (col_cells col) then control_cols_loop lib df cs
            else if series_std lib (col_cells col) = Some 0 then control_cols_loop lib df cs
            else (case control_cols_loop lib df cs of
                Inl e \<Rightarrow> Inl e
              | Inr r \<Rightarrow> Inr (c # r))))"

definition control_cols :: "('m, 'c) library \<Rightarrow> frame \<Rightarrow> py_error + string list" where
  "control_cols lib df = control_cols_loop lib df (columns df)"

text \<open>\<open>np.where(np.abs(coef) > 1e-6)[0]\<close>\<close>

definition selected :: "real list \<Rightarrow> nat list" where
  "selected coef = filter (\<lambda>i. \<bar>coef ! i\<bar> > 1 / 1000000) [0..<length coef]"

text \<open>\<open>np.union1d\<close>: the sorted, duplicate-free values of both arrays.\<close>

definition union1d :: "nat list \<Rightarrow> nat list \<Rightarrow> nat list" where
  "union1d a b = remdups_adj (sort (a @ b))"

text \<open>\<open>[control_cols[i] for i in idx]\<close>\<close>

fun names_at :: "string list \<Rightarrow> nat list \<Rightarrow> py_error + string list" where
  "names_at cc [] = Inr []"
| "names_at cc (i # idx) =
     (if i < length cc
      then (case names_at cc idx of Inl e \<Rightarrow> Inl e | Inr ns \<Rightarrow> Inr (cc ! i # ns))
      else Inl IndexError)"

text \<open>\<open>LogisticRegressionCV.fit\<close> refuses a target with fewer than two classes
  (ValueError) before it runs its solver.\<close>

definition logistic_regression_cv ::
    "('m, 'c) library \<Rightarrow> matrix \<Rightarrow> pyfloat list \<Rightarrow> py_error + real list" where
  "logistic_regression_cv lib X D =
     (if length (remdups D) < 2 then Inl ValueError else logistic_cv_fit lib X D)"

text \<open>\<open>np.ptp\<close> of a column: largest minus smallest value, NaN as soon as a cell is NaN.\<close>

definition ptp :: "pyfloat list \<Rightarrow> pyfloat" where
  "ptp cs =
     (case those cs of
        None \<Rightarrow> None
      | Some [] \<Rightarrow> None
      | Some (x # xs) \<Rightarrow> Some (fold max xs x - fold min xs x))"

definition is_nonzero_const :: "pyfloat list \<Rightarrow> bool" where
  "is_nonzero_const cs = (ptp cs = Some 0 \<and> list_all (\<lambda>c. c \<noteq> Some 0) cs)"

definition shape0 :: "matrix \<Rightarrow> nat" where
  "shape0 x = (case x of [] \<Rightarrow> 0 | c # cs \<Rightarrow> length c)"

text \<open>\<open>sm.add_constant(x)\<close> with its defaults \<open>prepend=True, has_constant='skip'\<close>: a
  column of ones is put first, unless some column already is a nonzero constant, in which
  case \<open>x\<close> comes back unchanged.  The reduction over an array without rows raises.\<close>

definition add_constant :: "matrix \<Rightarrow> py_error + matrix" where
  "add_constant x =
     (if shape0 x = 0 then Inl ValueError
      else if list_ex is_nonzero_const x then Inr x
      else Inr (replicate (shape0 x) (Some 1) # x))"

text \<open>Lines 188 to 199: the regressors of the final fit.  \<open>np.column_stack([D, X_selected])\<close>
  puts the treatment first; with no selected control the treatment stands alone.\<close>

definition final_design :: "frame \<Rightarrow> pyfloat list \<Rightarrow> string list \<Rightarrow> py_error + matrix" where
  "final_design df D selected_names =
     bind_err
       (if length selected_names > 0
        then bind_err (select_columns df selected_names) (\<lambda>X_selected. Inr (D # X_selected))
        else Inr [D])
       add_constant"

text \<open>Lines 203 to 208: the covariance estimator asked of statsmodels.\<close>

definition covariance_choice :: "frame \<Rightarrow> py_error + cov_type" where
  "covariance_choice df =
     (if ''region'' \<in> set (columns df)
      then bind_err (values_of df ''region'') (\<lambda>clusters. Inr (Cluster clusters))
      else Inr HC1)"

text \<open>\<open>a[1]\<close> on a one-dimensional array\<close>

definition index1 :: "real list \<Rightarrow> py_error + real" where
  "index1 xs = (if 1 < length xs then Inr (xs ! 1) else Inl IndexError)"

fun join_comma :: "string list \<Rightarrow> string" where
  "join_comma [] = []"
| "join_comma [s] = s"
| "join_comma (s # t # rest) = s @ '', '' @ join_comma (t # rest)"

record lasso_results =
  method_name :: string
  coefficient :: real
  std_error :: real
  p_value :: real
  ci_lower :: real
  ci_upper :: real
  n_controls_selected :: nat
  controls_selected :: string
  n_obs :: nat

text \<open>Lines 162 to 185: the two penalised fits on the scaled candidate controls and the
  union of what they select.  The name lists of lines 170 and 181 are only printed, but
  building them can raise.\<close>

definition double_select ::
    "('m, 'c) library \<Rightarrow> string list \<Rightarrow> matrix \<Rightarrow> pyfloat list \<Rightarrow> pyfloat list \<Rightarrow> py_error + nat list" where
  "double_select lib cc X Y D =
     bind_err (scaler_fit_transform lib X) (\<lambda>X_scaled.
     bind_err (lasso_cv_fit lib X_scaled Y) (\<lambda>coef_y.
     bind_err (names_at cc (selected coef_y)) (\<lambda>selected_y_names.
     bind_err (logistic_regression_cv lib X_scaled D) (\<lambda>coef_d.
     bind_err (names_at cc (selected coef_d)) (\<lambda>selected_d_names.
     Inr (union1d (selected coef_y) (selected coef_d)))))))"

text \<open>Lines 188 to 236: the final fit and the row written to \<open>lasso_results.csv\<close>.\<close>

definition final_ols ::
    "('m, 'c) library \<Rightarrow> frame \<Rightarrow> string list \<Rightarrow> pyfloat list \<Rightarrow> pyfloat list \<Rightarrow> nat list
       \<Rightarrow> py_error + lasso_results" where
  "final_ols lib df cc Y D selected_union =
     bind_err (names_at cc selected_union) (\<lambda>selected_names.
     bind_err (final_design df D selected_names) (\<lambda>X_final.
     bind_err (covariance_choice df) (\<lambda>cov.
     let results = ols_fit lib cov X_final Y in
     bind_err (index1 (params results)) (\<lambda>beta_lasso.
     bind_err (index1 (bse results)) (\<lambda>se_lasso.
     bind_err (index1 (pvalues results)) (\<lambda>pval_lasso.
     Inr \<lparr>method_name = ''Post-Double-Selection LASSO'',
          coefficient = beta_lasso,
          std_error = se_lasso,
          p_value = pval_lasso,
          ci_lower = beta_lasso - 196 / 100 * se_lasso,
          ci_upper = beta_lasso + 196 / 100 * se_lasso,
          n_controls_selected = length selected_union,
          controls_selected = join_comma (take 20 selected_names),
          n_obs = length Y\<rparr>))))))"

definition double_selection :: "('m, 'c) library \<Rightarrow> frame \<Rightarrow> py_error + lasso_results" where
  "double_selection lib df =
     bind_err (values_of df ''ln_wage'') (\<lambda>Y.
     bind_err (values_of df ''agri_post'') (\<lambda>D.
     bind_err (control_cols lib df) (\<lambda>cc.
     bind_err (select_columns df cc) (\<lambda>X.
     bind_err (double_select lib cc X Y D) (\<lambda>selected_union.
     final_ols lib df cc Y D selected_union)))))"

section \<open>X-learner with random forests (lines 257 to 425)\<close>

text \<open>\<open>df.iloc[idx].copy().reset_index(drop=True)\<close>: the rows at the given positions, in
  the given order.\<close>

definition iloc :: "frame \<Rightarrow> nat list \<Rightarrow> py_error + frame" where
  "iloc df idx =
     (if list_all (\<lambda>i. i < nrows df) idx
      then Inr (map (\<lambda>(c, col). (c, col\<lparr>col_cells := map (\<lambda>i. col_cells col ! i) idx\<rparr>)) df)
      else Inl IndexError)"

text \<open>Lines 258 to 261: \<open>np.random.seed(42)\<close>, then
  \<open>np.random.choice(len(df_clean), n_sample, replace=False)\<close>.\<close>

definition n_sample :: "frame \<Rightarrow> nat" where
  "n_sample df = min 30000 (nrows df)"

definition sample_idx :: "('m, 'c) library \<Rightarrow> frame \<Rightarrow> nat list" where
  "sample_idx lib df = Rep_draw (random_choice lib) 42 (nrows df) (n_sample df)"

definition subsample :: "('m, 'c) library \<Rightarrow> frame \<Rightarrow> py_error + frame" where
  "subsample lib df = iloc df (sample_idx lib df)"

definition is_numeric_dtype :: "dtype \<Rightarrow> bool" where
  "is_numeric_dtype t = (t \<noteq> Category \<and> t \<noteq> Object)"

definition notna_all :: "pyfloat list \<Rightarrow> bool" where
  "notna_all cs = (None \<notin> set cs)"

text \<open>Lines 270 to 275\<close>

fun base_vars :: "frame \<Rightarrow> string list \<Rightarrow> string list" where
  "base_vars df [] = []"
| "base_vars df (v # vs) =
     (case map_of df v of
        None \<Rightarrow> base_vars df vs
      | Some col \<Rightarrow>
          if is_numeric_dtype (col_dtype col)
          then (if notna_all (col_cells col) then v # base_vars df vs else base_vars df vs)
          else base_vars df vs)"

definition startswith :: "string \<Rightarrow> string \<Rightarrow> bool" where
  "startswith s p = (take (length p) s = p)"

text \<open>Lines 278 to 282\<close>

fun educ_vars :: "frame \<Rightarrow> string list \<Rightarrow> string list" where
  "educ_vars df [] = []"
| "educ_vars df (c # cs) =
     (if startswith c ''educ_''
      then (case map_of df c of
          None \<Rightarrow> educ_vars df cs
        | Some col \<Rightarrow>
            if is_numeric_dtype (col_dtype col)
            then (if notna_all (col_cells col) then c # educ_vars df cs else educ_vars df cs)
            else educ_vars df cs)
      else educ_vars df cs)"

text \<open>\<open>list(dict.fromkeys(xs))\<close>: first occurrences, in order.\<close>

definition fromkeys :: "string list \<Rightarrow> string list" where
  "fromkeys xs = fold (\<lambda>x acc. if x \<in> set acc then acc else acc @ [x]) xs []"

definition hetero_vars :: "frame \<Rightarrow> string list" where
  "hetero_vars df =
     take 10 (fromkeys (base_vars df [''age'', ''female'', ''post'', ''age_sq'']
                          @ educ_vars df (columns df)))"

text \<open>\<open>df[names].values\<close>, row by row\<close>

definition values_rows :: "frame \<Rightarrow> string list \<Rightarrow> py_error + matrix" where
  "values_rows df names =
     bind_err (select_columns df names)
       (\<lambda>cols. Inr (map (\<lambda>i. map (\<lambda>c. c ! i) cols) [0..<nrows df]))"

text \<open>\<open>a == v\<close> and \<open>a[mask]\<close> on arrays\<close>

definition eq_mask :: "pyfloat list \<Rightarrow> real \<Rightarrow> bool list" where
  "eq_mask a v = map (\<lambda>t. t = Some v) a"

definition mask_select :: "bool list \<Rightarrow> 'a list \<Rightarrow> 'a list" where
  "mask_select msk xs = map snd (filter fst (zip msk xs))"

definition fsub :: "pyfloat \<Rightarrow> pyfloat \<Rightarrow> pyfloat" where
  "fsub a b = (case a of None \<Rightarrow> None | Some x \<Rightarrow> (case b of None \<Rightarrow> None | Some y \<Rightarrow> Some (x - y)))"

text \<open>The forests validate their input first: a training set without rows is refused
  with ValueError.  Prediction is row by row.\<close>

definition random_forest_regressor_fit ::
    "('m, 'c) library \<Rightarrow> nat \<Rightarrow> matrix \<Rightarrow> pyfloat list \<Rightarrow> py_error + 'm" where
  "random_forest_regressor_fit lib max_depth X y =
     (if X = [] then Inl ValueError else forest_regressor_fit lib max_depth X y)"

definition random_forest_classifier_fit ::
    "('m, 'c) library \<Rightarrow> nat \<Rightarrow> matrix \<Rightarrow> pyfloat list \<Rightarrow> py_error + 'c" where
  "random_forest_classifier_fit lib max_depth X y =
     (if X = [] then Inl ValueError else forest_classifier_fit lib max_depth X y)"

definition predict :: "('m, 'c) library \<Rightarrow> 'm \<Rightarrow> matrix \<Rightarrow> real list" where
  "predict lib m X = map (forest_predict lib m) X"

text \<open>\<open>predict_proba(X)[:, 1]\<close>: the second class's column, IndexError when the
  classifier saw one class only.\<close>

definition predict_proba_1 :: "('m, 'c) library \<Rightarrow> 'c \<Rightarrow> matrix \<Rightarrow> py_error + real list" where
  "predict_proba_1 lib ps X =
     (if list_all (\<lambda>row. 1 < length (forest_predict_proba lib ps row)) X
      then Inr (map (\<lambda>row. forest_predict_proba lib ps row ! 1) X)
      else Inl IndexError)"

text \<open>Line 344: \<open>tau_hat = e_x * tau_0_pred + (1 - e_x) * tau_1_pred\<close>, element by element.\<close>

definition combine :: "real list \<Rightarrow> real list \<Rightarrow> real list \<Rightarrow> real list" where
  "combine e_x tau_0_pred tau_1_pred =
     map (\<lambda>(e, t0, t1). e * t0 + (1 - e) * t1) (zip e_x (zip tau_0_pred tau_1_pred))"

text \<open>Lines 318 and 321: the pseudo-outcomes of the two arms.\<close>

definition pseudo_control :: "real list \<Rightarrow> pyfloat list \<Rightarrow> bool list \<Rightarrow> pyfloat list" where
  "pseudo_control mu_1 Y_cf mask_0 =
     map (\<lambda>(m, y). fsub (Some m) y) (zip (mask_select mask_0 mu_1) (mask_select mask_0 Y_cf))"

definition pseudo_treated :: "real list \<Rightarrow> pyfloat list \<Rightarrow> bool list \<Rightarrow> pyfloat list" where
  "pseudo_treated mu_0 Y_cf mask_1 =
     map (\<lambda>(y, m). fsub y (Some m)) (zip (mask_select mask_1 Y_cf) (mask_select mask_1 mu_0))"

text \<open>The ensembles fitted so far are recorded in order, so that a failure shows what
  had been fitted before it.\<close>

datatype stage = OutcomeControl | OutcomeTreated | EffectControl | EffectTreated | Propensity

text \<open>Lines 297 to 344 on the arrays \<open>X_cf\<close>, \<open>Y_cf\<close>, \<open>T_cf\<close>.\<close>

definition x_learner_core ::
    "('m, 'c) library \<Rightarrow> matrix \<Rightarrow> pyfloat list \<Rightarrow> pyfloat list \<Rightarrow> stage list \<times> (py_error + real list)" where
  "x_learner_core lib X_cf Y_cf T_cf =
     (let mask_0 = eq_mask T_cf 0 in
      case random_forest_regressor_fit lib 10 (mask_select mask_0 X_cf) (mask_select mask_0 Y_cf) of
        Inl e \<Rightarrow> ([], Inl e)
      | Inr rf_0 \<Rightarrow>
     (let mask_1 = eq_mask T_cf 1 in
      case random_forest_regressor_fit lib 10 (mask_select mask_1 X_cf) (mask_select mask_1 Y_cf) of
        Inl e \<Rightarrow> ([OutcomeControl], Inl e)
      | Inr rf_1 \<Rightarrow>
     (let mu_0 = predict lib rf_0 X_cf;
          mu_1 = predict lib rf_1 X_cf;
          D_0 = pseudo_control mu_1 Y_cf mask_0;
          D_1 = pseudo_treated mu_0 Y_cf mask_1 in
      case random_forest_regressor_fit lib 8 (mask_select mask_0 X_cf) D_0 of
        Inl e \<Rightarrow> ([OutcomeControl, OutcomeTreated], Inl e)
      | Inr tau_0_model \<Rightarrow>
     (case random_forest_regressor_fit lib 8 (mask_select mask_1 X_cf) D_1 of
        Inl e \<Rightarrow> ([OutcomeControl, OutcomeTreated, EffectControl], Inl e)
      | Inr tau_1_model \<Rightarrow>
     (case random_forest_classifier_fit lib 8 X_cf T_cf of
        Inl e \<Rightarrow> ([OutcomeControl, OutcomeTreated, EffectControl, EffectTreated], Inl e)
      | Inr ps_model \<Rightarrow>
     (case predict_proba_1 lib ps_model X_cf of
        Inl e \<Rightarrow> ([OutcomeControl, OutcomeTreated, EffectControl, EffectTreated, Propensity], Inl e)
      | Inr e_x \<Rightarrow>
          ([OutcomeControl, OutcomeTreated, EffectControl, EffectTreated, Propensity],
           Inr (combine e_x (predict lib tau_0_model X_cf) (predict lib tau_1_model X_cf)))))))))"

text \<open>Lines 261 to 289: the subsample and the arrays taken from it.\<close>

definition prepare_cf ::
    "('m, 'c) library \<Rightarrow> frame \<Rightarrow> py_error + (frame \<times> matrix \<times> pyfloat list \<times> pyfloat list)" where
  "prepare_cf lib df_clean =
     bind_err (subsample lib df_clean) (\<lambda>df_cf.
     bind_err (values_of df_cf ''ln_wage'') (\<lambda>Y_cf.
     bind_err (values_of df_cf ''agri'') (\<lambda>T_cf.
     bind_err (values_rows df_cf (hetero_vars df_cf)) (\<lambda>X_cf.
     Inr (df_cf, X_cf, Y_cf, T_cf)))))"

text \<open>Lines 381 to 409: \<open>df_cf.loc[mask, 'tau_hat']\<close> for a group of rows of \<open>df_cf\<close>;
  its mean, its standard deviation (pandas') and its size are reported when the group
  is not empty.\<close>

definition range_mask :: "pyfloat list \<Rightarrow> real \<Rightarrow> real \<Rightarrow> bool list" where
  "range_mask a lo hi = map (\<lambda>t. case t of None \<Rightarrow> False | Some x \<Rightarrow> lo \<le> x \<and> x < hi) a"

definition subgroup_summary ::
    "('m, 'c) library \<Rightarrow> bool list \<Rightarrow> real list \<Rightarrow> (real \<times> pyfloat \<times> nat) option" where
  "subgroup_summary lib msk tau =
     (let grp = mask_select msk tau in
      if length grp > 0 then Some (mean grp, series_std lib (map Some grp), length grp) else None)"

text \<open>Lines 349 to 356 and 412 to 422: the distribution of the effect array, as printed
  and as written to \<open>causal_forest_results.csv\<close>.  The feature importances of lines 364
  to 374 are read off the fitted forests and are not part of the model.\<close>

record xl_results =
  tau_hat :: "real list"
  mean_tau :: real
  std_tau :: real
  median_tau :: real
  p10_tau :: real
  p25_tau :: real
  p75_tau :: real
  p90_tau :: real
  cf_n_obs :: nat
  by_age :: "(real \<times> pyfloat \<times> nat) option list"
  by_gender :: "(real \<times> pyfloat \<times> nat) option list"
  by_period :: "(real \<times> pyfloat \<times> nat) option list"

definition summarise :: "('m, 'c) library \<Rightarrow> frame \<Rightarrow> real list \<Rightarrow> py_error + xl_results" where
  "summarise lib df_cf tau =
     bind_err (values_of df_cf ''age'') (\<lambda>age.
     bind_err (values_of df_cf ''female'') (\<lambda>female.
     bind_err (values_of df_cf ''post'') (\<lambda>post.
     Inr \<lparr>tau_hat = tau,
          mean_tau = mean tau,
          std_tau = np_std lib tau,
          median_tau = np_median lib tau,
          p10_tau = np_percentile lib tau 10,
          p25_tau = np_percentile lib tau 25,
          p75_tau = np_percentile lib tau 75,
          p90_tau = np_percentile lib tau 90,
          cf_n_obs = length tau,
          by_age = map (\<lambda>(lo, hi). subgroup_summary lib (range_mask age lo hi) tau)
                     [(18, 30), (30, 45), (45, 55), (55, 65)],
          by_gender = map (\<lambda>g. subgroup_summary lib (eq_mask female g) tau) [0, 1],
          by_period = map (\<lambda>p. subgroup_summary lib (eq_mask post p) tau) [0, 1]\<rparr>)))"

definition x_learner ::
    "('m, 'c) library \<Rightarrow> frame \<Rightarrow> stage list \<times> (py_error + xl_results)" where
  "x_learner lib df_clean =
     (case prepare_cf lib df_clean of
        Inl e \<Rightarrow> ([], Inl e)
      | Inr (df_cf, X_cf, Y_cf, T_cf) \<Rightarrow>
          (case x_learner_core lib X_cf Y_cf T_cf of
             (fitted, Inl e) \<Rightarrow> (fitted, Inl e)
           | (fitted, Inr tau) \<Rightarrow> (fitted, summarise lib df_cf tau)))"

section \<open>The final regression as the specification words it\<close>

text \<open>
  The specification's step 4: ordinary least squares of the outcome on an intercept, the
  treatment and the covariates in \<open>U\<close>.  Its regressors, for a treatment vector \<open>D\<close>,
  the candidate controls \<open>X\<close> (column by column) and a set \<open>U\<close> of column positions, are
  the constant, then the treatment, then the columns of \<open>U\<close> in ascending position.
\<close>

definition spec_design :: "pyfloat list \<Rightarrow> matrix \<Rightarrow> nat set \<Rightarrow> matrix" where
  "spec_design D X U = replicate (length D) (Some 1) # D # map ((!) X) (sorted_list_of_set U)"

section \<open>Concrete inputs\<close>

text \<open>
  Small cleaned frames, a frame of 30001 rows, and simple stand-ins for the library, on
  which the definitions above are evaluated.  The penalised fits return given
  coefficient vectors; the least-squares fit reports, per regressor, the sum of its
  column; a regression forest predicts the mean of its training targets plus a hundredth
  of the row's first covariate, the classification forest the share of treated rows; the
  draw without replacement returns the last \<open>k\<close> positions, last first.  The standard
  deviations are the exact ones, which on the columns of these frames are 0 exactly
  when the computed ones are; the percentile stand-in takes the sorted array's entry at
  the rounded-down rank.
\<close>

definition mk_col :: "dtype \<Rightarrow> real list \<Rightarrow> column" where
  "mk_col t xs = \<lparr>col_dtype = t, col_cells = map Some xs\<rparr>"

definition df_small :: frame where
  "df_small =
     [(''ln_wage'', mk_col Float64 [10, 12, 9, 11]),
      (''agri_post'', mk_col Int64 [0, 1, 0, 1]),
      (''agri'', mk_col Int64 [0, 1, 1, 1]),
      (''post'', mk_col Int64 [1, 1, 0, 1]),
      (''age'', mk_col Float64 [25, 40, 50, 60]),
      (''female'', mk_col Float64 [0, 1, 0, 1]),
      (''k'', mk_col Int64 [1, 1, 1, 1]),
      (''region'', mk_col Object [1, 1, 2, 2])]"

text \<open>The rows of \<open>df_small\<close> at positions 3, 2, 1, 0.\<close>

definition df_small_cf :: frame where
  "df_small_cf =
     [(''ln_wage'', mk_col Float64 [11, 9, 12, 10]),
      (''agri_post'', mk_col Int64 [1, 0, 1, 0]),
      (''agri'', mk_col Int64 [1, 1, 1, 0]),
      (''post'', mk_col Int64 [1, 0, 1, 1]),
      (''age'', mk_col Float64 [60, 50, 40, 25]),
      (''female'', mk_col Float64 [1, 0, 1, 0]),
      (''k'', mk_col Int64 [1, 1, 1, 1]),
      (''region'', mk_col Object [2, 2, 1, 1])]"

definition df_no_region :: frame where
  "df_no_region = butlast df_small"





text \<open>
  A frame of 30001 rows, one more than the cap of line 259.  Row 0 differs from all the
  others in its outcome and its age; rows 0 and 30000 are the control rows.
\<close>

definition df_big :: frame where
  "df_big =
     [(''ln_wage'', mk_col Float64 (1000 # replicate 30000 10)),
      (''agri'', mk_col Int64 (0 # replicate 29999 1 @ [0])),
      (''post'', mk_col Int64 (replicate 30001 1)),
      (''age'', mk_col Float64 (20 # replicate 30000 40)),
      (''female'', mk_col Float64 (replicate 30001 0))]"

text \<open>Its rows at positions 30000, 29999, ..., 1.\<close>

definition df_big_cf :: frame where
  "df_big_cf =
     [(''ln_wage'', mk_col Float64 (replicate 30000 10)),
      (''agri'', mk_col Int64 (0 # replicate 29999 1)),
      (''post'', mk_col Int64 (replicate 30000 1)),
      (''age'', mk_col Float64 (replicate 30000 40)),
      (''female'', mk_col Float64 (replicate 30000 0))]"

definition notna_values :: "pyfloat list \<Rightarrow> real list" where
  "notna_values cs = List.map_filter (\<lambda>c. c) cs"

definition sq_dev :: "real list \<Rightarrow> real" where
  "sq_dev xs = sum_list (map (\<lambda>x. (x - mean xs)\<^sup>2) xs)"

definition stub_std :: "pyfloat list \<Rightarrow> pyfloat" where
  "stub_std cs =
     (let xs = notna_values cs in
      if length xs < 2 then None else Some (sqrt (sq_dev xs / real (length xs - 1))))"

definition stub_np_std :: "real list \<Rightarrow> real" where
  "stub_np_std xs = sqrt (sq_dev xs / real (length xs))"

definition stub_percentile :: "real list \<Rightarrow> real \<Rightarrow> real" where
  "stub_percentile xs q = sort xs ! nat \<lfloor>q / 100 * real (length xs - 1)\<rfloor>"

lift_definition stub_draw :: draw is "\<lambda>seed n k. rev [n - k..<n]"
  by auto

definition stub_ols :: "cov_type \<Rightarrow> matrix \<Rightarrow> pyfloat list \<Rightarrow> ols_results" where
  "stub_ols cov X Y =
     \<lparr>params = map (\<lambda>c. sum_list (notna_values c)) X,
      bse = map (\<lambda>c. case cov of Cluster g \<Rightarrow> 1 | HC1 \<Rightarrow> 1 / 2) X,
      pvalues = map (\<lambda>c. 1 / 20) X\<rparr>"

definition stub_lib :: "real list \<Rightarrow> real list \<Rightarrow> (real, real) library" where
  "stub_lib coef_y coef_d =
     \<lparr>scaler_fit_transform = (\<lambda>X. Inr X),
      lasso_cv_fit = (\<lambda>X Y. Inr coef_y),
      logistic_cv_fit = (\<lambda>X D. Inr coef_d),
      ols_fit = stub_ols,
      series_std = stub_std,
      random_choice = stub_draw,
      np_std = stub_np_std,
      np_median = (\<lambda>xs. stub_percentile xs 50),
      np_percentile = stub_percentile,
      forest_regressor_fit = (\<lambda>max_depth X y. Inr (mean (notna_values y))),
      forest_predict = (\<lambda>m row. m + sum_list (notna_values (take 1 row)) / 100),
      forest_classifier_fit = (\<lambda>max_depth X T. Inr (mean (notna_values T))),
      forest_predict_proba = (\<lambda>p row. [1 - p, p])\<rparr>"

definition coef_y_small :: "real list" where
  "coef_y_small = [0, 1 / 2, 0, 0]"

definition coef_d_small :: "real list" where
  "coef_d_small = [3 / 10000000, 0, 2, 0]"

definition lib_small :: "(real, real) library" where
  "lib_small = stub_lib coef_y_small coef_d_small"

definition lib_null :: "(real, real) library" where
  "lib_null = stub_lib [0, 0, 0, 0] [0, 0, 0, 0]"

section \<open>Auxiliary facts\<close>

subsection \<open>Error propagation and column lookup\<close>

lemma bind_err_Inr_iff: "bind_err m f = Inr r \<longleftrightarrow> (\<exists>v. m = Inr v \<and> f v = Inr r)"
  by (cases m) (simp_all add: bind_err_def)

lemma values_of_Inr_iff:
  "values_of df c = Inr v \<longleftrightarrow> (\<exists>cl. map_of df c = Some cl \<and> v = col_cells cl)"
  by (auto simp: values_of_def get_column_def bind_err_def split: option.splits)

lemma values_of_nonempty: "values_of df c = Inr v \<Longrightarrow> df \<noteq> []"
  by (auto simp: values_of_Inr_iff)

lemma select_columns_Inr_iff:
  "select_columns df names = Inr m \<longleftrightarrow>
     (\<forall>c\<in>set names. map_of df c \<noteq> None) \<and> m = map (\<lambda>c. col_cells (the (map_of df c))) names"
proof (induction names arbitrary: m)
  case Nil
  then show ?case by auto
next
  case (Cons c cs)
  show ?case
  proof (cases "select_columns df cs")
    case (Inl e)
    with Cons[of "map (\<lambda>c. col_cells (the (map_of df c))) cs"] show ?thesis
      by (auto split: sum.splits)
  next
    case (Inr ms)
    with Cons[of ms] show ?thesis
      by (cases "values_of df c") (auto simp: values_of_Inr_iff values_of_def get_column_def bind_err_def split: option.splits)
  qed
qed

lemma select_columns_nth:
  assumes "select_columns df cc = Inr X" and "\<forall>i\<in>set U. i < length cc"
  shows "select_columns df (map ((!) cc) U) = Inr (map ((!) X) U)"
proof -
  from assms(1) have dom: "\<forall>c\<in>set cc. map_of df c \<noteq> None"
    and X: "X = map (\<lambda>c. col_cells (the (map_of df c))) cc"
    by (simp_all add: select_columns_Inr_iff)
  have "\<forall>c\<in>set (map ((!) cc) U). map_of df c \<noteq> None"
    using dom assms(2) by auto
  moreover have "map (\<lambda>c. col_cells (the (map_of df c))) (map ((!) cc) U) = map ((!) X) U"
    using assms(2) by (simp add: X)
  ultimately show ?thesis by (simp add: select_columns_Inr_iff)
qed

lemma names_at_Inr_iff:
  "names_at cc idx = Inr ns \<longleftrightarrow> (\<forall>i\<in>set idx. i < length cc) \<and> ns = map ((!) cc) idx"
proof (induction idx arbitrary: ns)
  case Nil
  then show ?case by auto
next
  case (Cons i idx)
  show ?case
  proof (cases "names_at cc idx")
    case (Inl e)
    with Cons[of "map ((!) cc) idx"] show ?thesis by auto
  next
    case (Inr ms)
    with Cons[of ms] show ?thesis by auto
  qed
qed

subsection \<open>The union of the selected sets\<close>

lemma sorted_distinct_remdups_adj: "sorted xs \<Longrightarrow> distinct (remdups_adj xs)"
  by (induction xs rule: remdups_adj.induct) auto

lemma union1d_sorted_list: "union1d a b = sorted_list_of_set (set a \<union> set b)"
proof -
  have "sorted (union1d a b)" "distinct (union1d a b)" "set (union1d a b) = set a \<union> set b"
    by (simp_all add: union1d_def sorted_distinct_remdups_adj)
  then show ?thesis
    by (metis sorted_list_of_set.idem_if_sorted_distinct)
qed

subsection \<open>Constant columns\<close>

lemma those_Some_map: "those cs = Some ys \<Longrightarrow> cs = map Some ys"
  by (induction cs arbitrary: ys) (auto split: option.splits)

lemma fold_max_Max: "fold max xs (x::real) = Max (set (x # xs))"
  by (rule Max.set_eq_fold[symmetric])

lemma fold_min_Min: "fold min xs (x::real) = Min (set (x # xs))"
  by (rule Min.set_eq_fold[symmetric])

lemma ptp_zero_const:
  assumes "ptp cs = Some 0"
  shows "\<exists>x. cs = replicate (length cs) (Some x) \<and> cs \<noteq> []"
proof -
  from assms obtain x xs where ys: "those cs = Some (x # xs)" and eq: "fold max xs x = fold min xs x"
    by (auto simp: ptp_def split: option.splits list.splits)
  have cs: "cs = map Some (x # xs)" using ys by (rule those_Some_map)
  have "\<forall>y\<in>set (x # xs). y = x"
  proof
    fix y assume y: "y \<in> set (x # xs)"
    have "Min (set (x # xs)) \<le> y" "y \<le> Max (set (x # xs))" using y by simp_all
    moreover have "Min (set (x # xs)) \<le> x" "x \<le> Max (set (x # xs))" by simp_all
    moreover have "Max (set (x # xs)) = Min (set (x # xs))"
      using eq by (simp only: fold_max_Max fold_min_Min)
    ultimately show "y = x" by linarith
  qed
  then have "x # xs = replicate (length (x # xs)) x"
    by (metis replicate_length_same)
  then have "cs = replicate (length cs) (Some x)"
    using cs by (metis length_map map_replicate)
  moreover have "cs \<noteq> []" using cs by simp
  ultimately show ?thesis by blast
qed

lemma two_classes_not_const: "2 \<le> length (remdups D) \<Longrightarrow> ptp D \<noteq> Some 0"
proof
  assume two: "2 \<le> length (remdups D)" and "ptp D = Some 0"
  then obtain x where "D = replicate (length D) (Some x)" "D \<noteq> []"
    using ptp_zero_const by blast
  then have "set D \<subseteq> {Some x}"
    by (metis set_replicate_conv_if subset_refl empty_subsetI)
  then have "card (set D) \<le> 1"
    using card_mono[of "{Some x}" "set D"] by simp
  then show False using two by (simp add: length_remdups_card_conv)
qed

subsection \<open>The candidate controls\<close>

lemma distinct_count_list_le_1:
  "distinct xs \<Longrightarrow> count_list xs x \<le> 1"
  by (induction xs) auto

lemma control_cols_loop_total:
  "distinct (columns df) \<Longrightarrow> set names \<subseteq> set (columns df) \<Longrightarrow>
     \<exists>cc. control_cols_loop lib df names = Inr cc"
proof (induction names)
  case Nil
  then show ?case by simp
next
  case (Cons c cs)
  then obtain r where r: "control_cols_loop lib df cs = Inr r" by auto
  from Cons.prems have one: "\<not> 1 < count_list (columns df) c"
    using distinct_count_list_le_1[of "columns df" c] by simp
  from Cons.prems have "c \<in> fst ` set df" by (simp add: columns_def)
  then obtain cl where "map_of df c = Some cl"
    by (metis domD dom_map_of_conv_image_fst)
  then have "get_column df c = Inr cl" by (simp add: get_column_def)
  with r one show ?case by simp
qed

lemma control_cols_loop_sound:
  "control_cols_loop lib df names = Inr cc \<Longrightarrow> c \<in> set cc \<Longrightarrow>
     c \<in> set names \<and> c \<notin> set exclude_cols \<and>
     (\<exists>cl. map_of df c = Some cl \<and> ds_numeric (col_dtype cl) \<and> \<not> isna_any (col_cells cl)
        \<and> series_std lib (col_cells cl) \<noteq> Some 0)"
proof (induction names arbitrary: cc)
  case Nil
  then show ?case by simp
next
  case (Cons n ns)
  show ?case
  proof (cases "n \<in> set exclude_cols")
    case True
    with Cons show ?thesis by auto
  next
    case False
    with Cons.prems have one: "\<not> 1 < count_list (columns df) n"
      by (auto split: if_splits)
    with False Cons.prems obtain cl where cl: "get_column df n = Inr cl"
      by (auto split: sum.splits)
    then have m: "map_of df n = Some cl"
      by (auto simp: get_column_def split: option.splits)
    show ?thesis
    proof (cases "\<not> ds_numeric (col_dtype cl) \<or> isna_any (col_cells cl) \<or> series_std lib (col_cells cl) = Some 0")
      case True
      with False one cl Cons.prems have "control_cols_loop lib df ns = Inr cc" by (auto split: if_splits)
      with Cons.IH[of cc] Cons.prems(2) show ?thesis by auto
    next
      case keep: False
      with False one cl Cons.prems obtain r where r: "control_cols_loop lib df ns = Inr r" and cc: "cc = n # r"
        by (auto split: sum.splits)
      show ?thesis
      proof (cases "c = n")
        case True
        with False keep m show ?thesis by auto
      next
        case False
        with cc Cons.prems(2) have "c \<in> set r" by simp
        with Cons.IH[OF r] show ?thesis by auto
      qed
    qed
  qed
qed

lemma control_cols_loop_complete:
  "control_cols_loop lib df names = Inr cc \<Longrightarrow> c \<in> set names \<Longrightarrow> c \<notin> set exclude_cols \<Longrightarrow>
   map_of df c = Some cl \<Longrightarrow> ds_numeric (col_dtype cl) \<Longrightarrow> \<not> isna_any (col_cells cl) \<Longrightarrow>
   series_std lib (col_cells cl) \<noteq> Some 0 \<Longrightarrow> c \<in> set cc"
proof (induction names arbitrary: cc)
  case Nil
  then show ?case by simp
next
  case (Cons n ns)
  show ?case
  proof (cases "c = n")
    case True
    with Cons.prems show ?thesis
      by (auto simp: get_column_def split: sum.splits if_splits)
  next
    case False
    with Cons.prems have c: "c \<in> set ns" by simp
    from Cons.prems(1) have "\<exists>r. control_cols_loop lib df ns = Inr r \<and> set r \<subseteq> set cc"
      by (auto split: sum.splits if_splits)
    then obtain r where r: "control_cols_loop lib df ns = Inr r" and sub: "set r \<subseteq> set cc"
      by blast
    from Cons.IH[OF r c Cons.prems(3-7)] sub show ?thesis by blast
  qed
qed

lemma control_cols_characterised:
  assumes "distinct (columns df)"
  shows "\<exists>cc. control_cols lib df = Inr cc \<and>
     (\<forall>c. c \<in> set cc \<longleftrightarrow>
        c \<in> set (columns df) \<and> c \<notin> set exclude_cols \<and>
        (\<exists>cl. map_of df c = Some cl \<and> ds_numeric (col_dtype cl) \<and> \<not> isna_any (col_cells cl)
           \<and> series_std lib (col_cells cl) \<noteq> Some 0))"
proof -
  obtain cc where cc: "control_cols_loop lib df (columns df) = Inr cc"
    using control_cols_loop_total[OF assms, of "columns df" lib] by blast
  have "c \<in> set cc \<longleftrightarrow>
        c \<in> set (columns df) \<and> c \<notin> set exclude_cols \<and>
        (\<exists>cl. map_of df c = Some cl \<and> ds_numeric (col_dtype cl) \<and> \<not> isna_any (col_cells cl)
           \<and> series_std lib (col_cells cl) \<noteq> Some 0)" for c
    using control_cols_loop_sound[OF cc, of c] control_cols_loop_complete[OF cc, of c]
    by auto
  with cc show ?thesis by (auto simp: control_cols_def)
qed

subsection \<open>The final fit\<close>

lemma double_select_InrD:
  assumes "double_select lib cc X Y D = Inr U"
  obtains X_scaled coef_y coef_d where
    "scaler_fit_transform lib X = Inr X_scaled"
    "lasso_cv_fit lib X_scaled Y = Inr coef_y"
    "logistic_cv_fit lib X_scaled D = Inr coef_d"
    "2 \<le> length (remdups D)"
    "U = union1d (selected coef_y) (selected coef_d)"
  using assms
  by (auto simp: double_select_def bind_err_Inr_iff logistic_regression_cv_def split: if_splits)

lemma final_ols_InrD:
  assumes "final_ols lib df cc Y D U = Inr r"
  obtains X_final cov where
    "\<forall>i\<in>set U. i < length cc"
    "final_design df D (map ((!) cc) U) = Inr X_final"
    "covariance_choice df = Inr cov"
    "1 < length (params (ols_fit lib cov X_final Y))"
    "1 < length (bse (ols_fit lib cov X_final Y))"
    "1 < length (pvalues (ols_fit lib cov X_final Y))"
    "r = \<lparr>method_name = ''Post-Double-Selection LASSO'',
          coefficient = params (ols_fit lib cov X_final Y) ! 1,
          std_error = bse (ols_fit lib cov X_final Y) ! 1,
          p_value = pvalues (ols_fit lib cov X_final Y) ! 1,
          ci_lower = params (ols_fit lib cov X_final Y) ! 1 - 196 / 100 * bse (ols_fit lib cov X_final Y) ! 1,
          ci_upper = params (ols_fit lib cov X_final Y) ! 1 + 196 / 100 * bse (ols_fit lib cov X_final Y) ! 1,
          n_controls_selected = length U,
          controls_selected = join_comma (take 20 (map ((!) cc) U)),
          n_obs = length Y\<rparr>"
  using assms
  by (auto simp: final_ols_def bind_err_Inr_iff names_at_Inr_iff index1_def Let_def split: if_splits)

lemma double_selection_InrD:
  assumes "double_selection lib df = Inr r"
  obtains Y D cc X U where
    "values_of df ''ln_wage'' = Inr Y" "values_of df ''agri_post'' = Inr D"
    "control_cols lib df = Inr cc" "select_columns df cc = Inr X"
    "double_select lib cc X Y D = Inr U" "final_ols lib df cc Y D U = Inr r"
  using assms by (auto simp: double_selection_def bind_err_Inr_iff)

lemma final_design_selected:
  assumes D: "values_of df ''agri_post'' = Inr D"
    and two: "2 \<le> length (remdups D)"
    and X: "select_columns df cc = Inr X"
    and idx: "\<forall>i\<in>set U. i < length cc"
    and nc: "\<forall>i\<in>set U. \<not> is_nonzero_const (X ! i)"
  shows "final_design df D (map ((!) cc) U) = Inr (replicate (length D) (Some 1) # D # map ((!) X) U)"
proof -
  have "length (remdups D) \<le> length D" by (rule length_remdups_leq)
  with two have n2: "2 \<le> length D" by linarith
  have sel: "select_columns df (map ((!) cc) U) = Inr (map ((!) X) U)"
    using X idx by (rule select_columns_nth)
  have pre: "(if length (map ((!) cc) U) > 0
        then bind_err (select_columns df (map ((!) cc) U)) (\<lambda>X_selected. Inr (D # X_selected))
        else Inr [D]) = Inr (D # map ((!) X) U)"
    by (simp add: sel bind_err_def)
  have Dnc: "\<not> is_nonzero_const D"
    using two_classes_not_const[OF two] by (simp add: is_nonzero_const_def)
  have "\<not> list_ex is_nonzero_const (D # map ((!) X) U)"
    using Dnc nc by (auto simp: list_ex_iff)
  moreover have "shape0 (D # map ((!) X) U) = length D" by (simp add: shape0_def)
  ultimately have "add_constant (D # map ((!) X) U)
      = Inr (replicate (length D) (Some 1) # D # map ((!) X) U)"
    using n2 by (auto simp: add_constant_def)
  then show ?thesis
    unfolding final_design_def pre by (simp add: bind_err_def)
qed

lemma double_selection_design:
  assumes run: "double_selection lib df = Inr r"
    and Y: "values_of df ''ln_wage'' = Inr Y" and D: "values_of df ''agri_post'' = Inr D"
    and cc: "control_cols lib df = Inr cc" and X: "select_columns df cc = Inr X"
    and Xs: "scaler_fit_transform lib X = Inr X_scaled"
    and cy: "lasso_cv_fit lib X_scaled Y = Inr coef_y"
    and cd: "logistic_cv_fit lib X_scaled D = Inr coef_d"
    and cov: "covariance_choice df = Inr cov"
    and nc: "\<forall>i\<in>set (selected coef_y) \<union> set (selected coef_d). \<not> is_nonzero_const (X ! i)"
  defines "U \<equiv> set (selected coef_y) \<union> set (selected coef_d)"
  shows "r = \<lparr>method_name = ''Post-Double-Selection LASSO'',
          coefficient = params (ols_fit lib cov (spec_design D X U) Y) ! 1,
          std_error = bse (ols_fit lib cov (spec_design D X U) Y) ! 1,
          p_value = pvalues (ols_fit lib cov (spec_design D X U) Y) ! 1,
          ci_lower = params (ols_fit lib cov (spec_design D X U) Y) ! 1
                       - 196 / 100 * bse (ols_fit lib cov (spec_design D X U) Y) ! 1,
          ci_upper = params (ols_fit lib cov (spec_design D X U) Y) ! 1
                       + 196 / 100 * bse (ols_fit lib cov (spec_design D X U) Y) ! 1,
          n_controls_selected = card U,
          controls_selected = join_comma (take 20 (map ((!) cc) (sorted_list_of_set U))),
          n_obs = length Y\<rparr>"
proof -
  from run obtain Y' D' cc' X' U' where
    "values_of df ''ln_wage'' = Inr Y'" "values_of df ''agri_post'' = Inr D'"
    "control_cols lib df = Inr cc'" "select_columns df cc' = Inr X'"
    and sel': "double_select lib cc' X' Y' D' = Inr U'" and fin': "final_ols lib df cc' Y' D' U' = Inr r"
    by (rule double_selection_InrD)
  with Y D cc X have sel: "double_select lib cc X Y D = Inr U'" and fin: "final_ols lib df cc Y D U' = Inr r"
    by simp_all
  from sel Xs cy cd have two: "2 \<le> length (remdups D)"
    and U': "U' = union1d (selected coef_y) (selected coef_d)"
    by (auto elim!: double_select_InrD)
  have U'l: "U' = sorted_list_of_set U" by (simp add: U' U_def union1d_sorted_list)
  have lenU: "length U' = card U" by (simp add: U'l)
  have setU: "set U' = U" by (simp add: U' U_def union1d_def)
  from fin obtain X_final cov' where idx: "\<forall>i\<in>set U'. i < length cc"
    and fd: "final_design df D (map ((!) cc) U') = Inr X_final"
    and cov': "covariance_choice df = Inr cov'"
    and r: "r = \<lparr>method_name = ''Post-Double-Selection LASSO'',
          coefficient = params (ols_fit lib cov' X_final Y) ! 1,
          std_error = bse (ols_fit lib cov' X_final Y) ! 1,
          p_value = pvalues (ols_fit lib cov' X_final Y) ! 1,
          ci_lower = params (ols_fit lib cov' X_final Y) ! 1 - 196 / 100 * bse (ols_fit lib cov' X_final Y) ! 1,
          ci_upper = params (ols_fit lib cov' X_final Y) ! 1 + 196 / 100 * bse (ols_fit lib cov' X_final Y) ! 1,
          n_controls_selected = length U',
          controls_selected = join_comma (take 20 (map ((!) cc) U')),
          n_obs = length Y\<rparr>"
    by (rule final_ols_InrD)
  have nc': "\<forall>i\<in>set U'. \<not> is_nonzero_const (X ! i)"
    using nc by (simp add: setU U_def)
  have "final_design df D (map ((!) cc) U') = Inr (spec_design D X U)"
    using final_design_selected[OF D two X idx nc'] by (simp add: spec_design_def U'l)
  with fd have Xf: "X_final = spec_design D X U" by simp
  from cov cov' have c: "cov' = cov" by simp
  show ?thesis
    unfolding r Xf c lenU by (simp add: U'l)
qed

lemma double_selection_n_controls:
  assumes run: "double_selection lib df = Inr r"
    and Y: "values_of df ''ln_wage'' = Inr Y" and D: "values_of df ''agri_post'' = Inr D"
    and cc: "control_cols lib df = Inr cc" and X: "select_columns df cc = Inr X"
    and Xs: "scaler_fit_transform lib X = Inr X_scaled"
    and cy: "lasso_cv_fit lib X_scaled Y = Inr coef_y"
    and cd: "logistic_cv_fit lib X_scaled D = Inr coef_d"
  shows "n_controls_selected r = card (set (selected coef_y) \<union> set (selected coef_d))"
proof -
  from run obtain Y' D' cc' X' U' where
    "values_of df ''ln_wage'' = Inr Y'" "values_of df ''agri_post'' = Inr D'"
    "control_cols lib df = Inr cc'" "select_columns df cc' = Inr X'"
    and sel': "double_select lib cc' X' Y' D' = Inr U'" and fin': "final_ols lib df cc' Y' D' U' = Inr r"
    by (rule double_selection_InrD)
  with Y D cc X have sel: "double_select lib cc X Y D = Inr U'" and fin: "final_ols lib df cc Y D U' = Inr r"
    by simp_all
  from sel Xs cy cd have U': "U' = union1d (selected coef_y) (selected coef_d)"
    by (auto elim!: double_select_InrD)
  from fin have "n_controls_selected r = length U'"
    by (auto elim!: final_ols_InrD)
  then show ?thesis by (simp add: U' union1d_sorted_list)
qed

subsection \<open>Masks and pseudo-outcomes\<close>

lemma mask_select_Nil: "\<forall>b\<in>set msk. \<not> b \<Longrightarrow> mask_select msk xs = []"
proof -
  assume a: "\<forall>b\<in>set msk. \<not> b"
  have "filter fst (zip msk xs) = []"
    using a by (auto simp: filter_empty_conv dest: set_zip_leftD)
  then show ?thesis by (simp add: mask_select_def)
qed

lemma mask_select_Cons:
  "mask_select (b # msk) (x # xs) = (if b then x # mask_select msk xs else mask_select msk xs)"
  by (simp add: mask_select_def)

lemma mask_select_length:
  "length msk = length xs \<Longrightarrow> length (mask_select msk xs) = length (filter (\<lambda>b. b) msk)"
  by (induction msk xs rule: list_induct2) (simp_all add: mask_select_def)

lemma mask_select_nth:
  "length msk = length xs \<Longrightarrow> i < length xs \<Longrightarrow> msk ! i \<Longrightarrow>
     mask_select msk xs ! length (filter (\<lambda>b. b) (take i msk)) = xs ! i"
proof (induction msk xs arbitrary: i rule: list_induct2)
  case Nil
  then show ?case by simp
next
  case (Cons b msk x xs)
  show ?case
  proof (cases i)
    case 0
    with Cons.prems show ?thesis by (simp add: mask_select_Cons)
  next
    case (Suc k)
    with Cons show ?thesis by (simp add: mask_select_Cons)
  qed
qed

lemma mask_select_none: "mask_select (replicate a False) xs = []"
  by (rule mask_select_Nil) simp

lemma mask_select_all: "length xs = a \<Longrightarrow> mask_select (replicate a True) xs = xs"
proof -
  assume l: "length xs = a"
  have "filter fst (zip (replicate a True) xs) = zip (replicate a True) xs"
    by (rule filter_True) (auto dest: set_zip_leftD)
  then show ?thesis using l by (simp add: mask_select_def)
qed

lemma eq_mask_filter_take:
  "length (filter (\<lambda>b. b) (take i (eq_mask a v))) = length (filter (\<lambda>t. t = Some v) (take i a))"
  by (simp add: eq_mask_def take_map filter_map o_def)

lemma eq_mask_filter:
  "length (filter (\<lambda>b. b) (eq_mask a v)) = length (filter (\<lambda>t. t = Some v) a)"
  by (simp add: eq_mask_def filter_map o_def)


lemma filter_take_less:
  assumes "i < length xs" and "P (xs ! i)"
  shows "length (filter P (take i xs)) < length (filter P xs)"
proof -
  have "xs = take i xs @ xs ! i # drop (Suc i) xs"
    using assms(1) by (rule id_take_nth_drop)
  then have "filter P xs = filter P (take i xs @ xs ! i # drop (Suc i) xs)" by simp
  also have "\<dots> = filter P (take i xs) @ xs ! i # filter P (drop (Suc i) xs)"
    using assms(2) by simp
  finally show ?thesis by simp
qed

lemma pseudo_control_nth:
  assumes "length mu_1 = length T" and "length Y = length T" and "i < length T" and "T ! i = Some 0"
  shows "pseudo_control mu_1 Y (eq_mask T 0) ! length (filter (\<lambda>t. t = Some 0) (take i T))
           = fsub (Some (mu_1 ! i)) (Y ! i)"
proof -
  let ?m = "eq_mask T 0"
  let ?k = "length (filter (\<lambda>b. b) (take i ?m))"
  have lm: "length ?m = length T" by (simp add: eq_mask_def)
  have mi: "?m ! i" using assms(3,4) by (simp add: eq_mask_def)
  have a: "mask_select ?m mu_1 ! ?k = mu_1 ! i"
    using mask_select_nth[of ?m mu_1 i] lm assms(1,3) mi by simp
  have b: "mask_select ?m Y ! ?k = Y ! i"
    using mask_select_nth[of ?m Y i] lm assms(2,3) mi by simp
  have "?k < length (filter (\<lambda>b. b) ?m)"
    using filter_take_less[of i ?m "\<lambda>b. b"] lm assms(3) mi by simp
  then have k: "?k < length (mask_select ?m mu_1)" "?k < length (mask_select ?m Y)"
    using mask_select_length[of ?m mu_1] mask_select_length[of ?m Y] lm assms(1,2) by simp_all
  have "pseudo_control mu_1 Y ?m ! ?k = fsub (Some (mu_1 ! i)) (Y ! i)"
    using k by (simp add: pseudo_control_def a b)
  then show ?thesis by (simp add: eq_mask_filter_take)
qed

lemma pseudo_treated_nth:
  assumes "length mu_0 = length T" and "length Y = length T" and "i < length T" and "T ! i = Some 1"
  shows "pseudo_treated mu_0 Y (eq_mask T 1) ! length (filter (\<lambda>t. t = Some 1) (take i T))
           = fsub (Y ! i) (Some (mu_0 ! i))"
proof -
  let ?m = "eq_mask T 1"
  let ?k = "length (filter (\<lambda>b. b) (take i ?m))"
  have lm: "length ?m = length T" by (simp add: eq_mask_def)
  have mi: "?m ! i" using assms(3,4) by (simp add: eq_mask_def)
  have a: "mask_select ?m mu_0 ! ?k = mu_0 ! i"
    using mask_select_nth[of ?m mu_0 i] lm assms(1,3) mi by simp
  have b: "mask_select ?m Y ! ?k = Y ! i"
    using mask_select_nth[of ?m Y i] lm assms(2,3) mi by simp
  have "?k < length (filter (\<lambda>b. b) ?m)"
    using filter_take_less[of i ?m "\<lambda>b. b"] lm assms(3) mi by simp
  then have k: "?k < length (mask_select ?m mu_0)" "?k < length (mask_select ?m Y)"
    using mask_select_length[of ?m mu_0] mask_select_length[of ?m Y] lm assms(1,2) by simp_all
  have "pseudo_treated mu_0 Y ?m ! ?k = fsub (Y ! i) (Some (mu_0 ! i))"
    using k by (simp add: pseudo_treated_def a b)
  then show ?thesis by (simp add: eq_mask_filter_take)
qed

lemma pseudo_lengths:
  assumes "length mu = length T" and "length Y = length T"
  shows "length (pseudo_control mu Y (eq_mask T v)) = length (filter (\<lambda>t. t = Some v) T)"
    and "length (pseudo_treated mu Y (eq_mask T v)) = length (filter (\<lambda>t. t = Some v) T)"
  using assms mask_select_length[of "eq_mask T v" mu] mask_select_length[of "eq_mask T v" Y]
  by (simp_all add: pseudo_control_def pseudo_treated_def eq_mask_filter) (simp_all add: eq_mask_def)

subsection \<open>The combination and the fitted ensembles\<close>

lemma combine_length:
  "length e = n \<Longrightarrow> length t0 = n \<Longrightarrow> length t1 = n \<Longrightarrow> length (combine e t0 t1) = n"
  by (simp add: combine_def)

lemma combine_nth:
  "length e = n \<Longrightarrow> length t0 = n \<Longrightarrow> length t1 = n \<Longrightarrow> j < n \<Longrightarrow>
     combine e t0 t1 ! j = e ! j * t0 ! j + (1 - e ! j) * t1 ! j"
  by (simp add: combine_def)

lemma predict_proba_1_Inr:
  "predict_proba_1 lib ps X = Inr e_x \<Longrightarrow> e_x = map (\<lambda>row. forest_predict_proba lib ps row ! 1) X"
  by (auto simp: predict_proba_1_def split: if_splits)

lemma convex_between:
  fixes e a b :: real
  assumes "0 \<le> e" "e \<le> 1"
  shows "min a b \<le> e * a + (1 - e) * b" and "e * a + (1 - e) * b \<le> max a b"
proof -
  have "e * min a b \<le> e * a" "(1 - e) * min a b \<le> (1 - e) * b"
    using assms by (simp_all add: mult_left_mono)
  then have "e * min a b + (1 - e) * min a b \<le> e * a + (1 - e) * b" by linarith
  then show "min a b \<le> e * a + (1 - e) * b" by (simp add: algebra_simps)
  have "e * a \<le> e * max a b" "(1 - e) * b \<le> (1 - e) * max a b"
    using assms by (simp_all add: mult_left_mono)
  then have "e * a + (1 - e) * b \<le> e * max a b + (1 - e) * max a b" by linarith
  then show "e * a + (1 - e) * b \<le> max a b" by (simp add: algebra_simps)
qed

lemma x_learner_core_InrD:
  assumes "x_learner_core lib X Y T = (fitted, Inr tau)"
  obtains rf_0 rf_1 tau_0_model tau_1_model ps_model e_x where
    "random_forest_regressor_fit lib 10 (mask_select (eq_mask T 0) X) (mask_select (eq_mask T 0) Y) = Inr rf_0"
    "random_forest_regressor_fit lib 10 (mask_select (eq_mask T 1) X) (mask_select (eq_mask T 1) Y) = Inr rf_1"
    "random_forest_regressor_fit lib 8 (mask_select (eq_mask T 0) X)
        (pseudo_control (predict lib rf_1 X) Y (eq_mask T 0)) = Inr tau_0_model"
    "random_forest_regressor_fit lib 8 (mask_select (eq_mask T 1) X)
        (pseudo_treated (predict lib rf_0 X) Y (eq_mask T 1)) = Inr tau_1_model"
    "random_forest_classifier_fit lib 8 X T = Inr ps_model"
    "predict_proba_1 lib ps_model X = Inr e_x"
    "tau = combine e_x (predict lib tau_0_model X) (predict lib tau_1_model X)"
    "fitted = [OutcomeControl, OutcomeTreated, EffectControl, EffectTreated, Propensity]"
  using assms by (auto simp: x_learner_core_def Let_def split: sum.splits)

lemma x_learner_core_length:
  assumes "x_learner_core lib X Y T = (fitted, Inr tau)"
  shows "length tau = length X"
proof -
  from assms obtain tau_0_model tau_1_model ps_model e_x where
    e: "predict_proba_1 lib ps_model X = Inr e_x"
    and tau: "tau = combine e_x (predict lib tau_0_model X) (predict lib tau_1_model X)"
    by (rule x_learner_core_InrD)
  from e have "length e_x = length X" using predict_proba_1_Inr[OF e] by simp
  then show ?thesis unfolding tau by (simp add: combine_length predict_def)
qed




subsection \<open>The subsample and the summaries\<close>

lemma nrows_iloc:
  "df \<noteq> [] \<Longrightarrow>
     nrows (map (\<lambda>(c, cl). (c, cl\<lparr>col_cells := map (\<lambda>i. col_cells cl ! i) idx\<rparr>)) df) = length idx"
  by (cases df) (auto simp: nrows_def)

lemma values_rows_length: "values_rows df names = Inr X \<Longrightarrow> length X = nrows df"
  by (auto simp: values_rows_def bind_err_Inr_iff)

lemma prepare_cf_InrD:
  assumes "prepare_cf lib df = Inr (df_cf, X_cf, Y_cf, T_cf)"
  shows "subsample lib df = Inr df_cf" and "values_of df_cf ''ln_wage'' = Inr Y_cf"
    and "values_of df_cf ''agri'' = Inr T_cf" and "values_rows df_cf (hetero_vars df_cf) = Inr X_cf"
  using assms by (auto simp: prepare_cf_def bind_err_Inr_iff)

lemma summarise_Inr:
  "summarise lib df_cf tau = Inr r \<Longrightarrow>
     tau_hat r = tau \<and> mean_tau r = mean tau \<and> std_tau r = np_std lib tau \<and>
     median_tau r = np_median lib tau \<and> p10_tau r = np_percentile lib tau 10 \<and>
     p25_tau r = np_percentile lib tau 25 \<and> p75_tau r = np_percentile lib tau 75 \<and>
     p90_tau r = np_percentile lib tau 90 \<and> cf_n_obs r = length tau"
  by (auto simp: summarise_def bind_err_Inr_iff)

lemma summarise_subgroups:
  assumes "summarise lib df_cf tau = Inr r"
  obtains age female post where
    "values_of df_cf ''age'' = Inr age" "values_of df_cf ''female'' = Inr female"
    "values_of df_cf ''post'' = Inr post"
    "by_age r = map (\<lambda>(lo, hi). subgroup_summary lib (range_mask age lo hi) tau)
                     [(18, 30), (30, 45), (45, 55), (55, 65)]"
    "by_gender r = map (\<lambda>g. subgroup_summary lib (eq_mask female g) tau) [0, 1]"
    "by_period r = map (\<lambda>p. subgroup_summary lib (eq_mask post p) tau) [0, 1]"
  using assms by (auto simp: summarise_def bind_err_Inr_iff)

lemma x_learner_InrD:
  assumes "x_learner lib df = (fitted, Inr r)" and "prepare_cf lib df = Inr (df_cf, X_cf, Y_cf, T_cf)"
  obtains tau where "x_learner_core lib X_cf Y_cf T_cf = (fitted, Inr tau)" "summarise lib df_cf tau = Inr r"
  using assms by (auto simp: x_learner_def split: sum.splits prod.splits)

lemma card_unsampled:
  assumes "set idx \<subseteq> {..<n}" and "card (set idx) = k"
  shows "card ({..<n} - set idx) = n - k"
  using assms by (simp add: card_Diff_subset)

lemma draw_props:
  assumes "k \<le> n"
  shows "length (Rep_draw d seed n k) = k" and "distinct (Rep_draw d seed n k)"
    and "set (Rep_draw d seed n k) \<subseteq> {..<n}"
  using Rep_draw[of d] assms by blast+

lemma sample_idx_props:
  shows "length (sample_idx lib df) = min 30000 (nrows df)" and "distinct (sample_idx lib df)"
    and "set (sample_idx lib df) \<subseteq> {..<nrows df}"
  using draw_props[of "min 30000 (nrows df)" "nrows df" "random_choice lib" 42]
  by (simp_all add: sample_idx_def n_sample_def)

lemma subsample_total:
  "subsample lib df =
     Inr (map (\<lambda>(c, cl). (c, cl\<lparr>col_cells := map (\<lambda>i. col_cells cl ! i) (sample_idx lib df)\<rparr>)) df)"
  using sample_idx_props(3)[of lib df] by (auto simp: subsample_def iloc_def list_all_iff)

lemma nth_rev_upt_drop:
  assumes "length xs = n"
  shows "map (\<lambda>i. xs ! i) (rev [n - k..<n]) = rev (drop (n - k) xs)"
proof -
  have "map ((!) xs) [n - k..<n] = drop (n - k) xs"
    using assms by (intro nth_equalityI) auto
  then have "rev (map ((!) xs) [n - k..<n]) = rev (drop (n - k) xs)" by simp
  then show ?thesis by (simp only: rev_map)
qed

section \<open>Evaluation on the concrete inputs\<close>

subsection \<open>The stand-ins for the library functions\<close>

lemma stub_fits:
  "scaler_fit_transform (stub_lib cy cd) X = Inr X"
  "lasso_cv_fit (stub_lib cy cd) X Y = Inr cy"
  "logistic_cv_fit (stub_lib cy cd) X D = Inr cd"
  "ols_fit (stub_lib cy cd) = stub_ols"
  "series_std (stub_lib cy cd) = stub_std"
  by (simp_all add: stub_lib_def)

lemma stub_std_zero_iff:
  "stub_std cs = Some 0 \<longleftrightarrow> (let xs = notna_values cs in 2 \<le> length xs \<and> sq_dev xs = 0)"
  by (auto simp: stub_std_def Let_def)

lemma stub_forest:
  "forest_regressor_fit (stub_lib cy cd) k X y = Inr (mean (notna_values y))"
  "forest_predict (stub_lib cy cd) m row = m + sum_list (notna_values (take 1 row)) / 100"
  "forest_classifier_fit (stub_lib cy cd) k X T = Inr (mean (notna_values T))"
  "forest_predict_proba (stub_lib cy cd) p row = [1 - p, p]"
  "Rep_draw (random_choice (stub_lib cy cd)) seed n k = rev [n - k..<n]"
  by (simp_all add: stub_lib_def stub_draw.rep_eq)

lemmas eval_defs = eq_mask_def mask_select_def random_forest_regressor_fit_def
  random_forest_classifier_fit_def predict_def predict_proba_1_def pseudo_control_def
  pseudo_treated_def combine_def fsub_def mean_def notna_values_def stub_forest lib_small_def

lemma stub_summaries:
  "np_std (stub_lib cy cd) = stub_np_std"
  "np_median (stub_lib cy cd) = (\<lambda>xs. stub_percentile xs 50)"
  "np_percentile (stub_lib cy cd) = stub_percentile"
  by (simp_all add: stub_lib_def)

lemma notna_values_Cons: "notna_values (Some x # cs) = x # notna_values cs"
  by (simp add: notna_values_def map_filter_simps)

lemma notna_values_replicate: "notna_values (replicate a (Some x)) = replicate a x"
  by (induction a) (simp_all add: notna_values_Cons, simp add: notna_values_def map_filter_simps)

lemma mean_replicate: "0 < a \<Longrightarrow> mean (replicate a x) = x"
  by (simp add: mean_def sum_list_replicate)

lemma sq_dev_replicate: "0 < n \<Longrightarrow> sq_dev (replicate n c) = 0"
  by (simp add: sq_dev_def mean_replicate sum_list_replicate)

lemma stub_np_std_replicate: "0 < n \<Longrightarrow> stub_np_std (replicate n c) = 0"
  by (simp add: stub_np_std_def sq_dev_replicate)

lemma stub_std_replicate: "2 \<le> n \<Longrightarrow> stub_std (replicate n (Some c)) = Some 0"
  by (simp add: stub_std_def notna_values_replicate sq_dev_replicate)

lemma stub_percentile_replicate:
  assumes "0 \<le> q" and "q \<le> 100" and "0 < n"
  shows "stub_percentile (replicate n c) q = c"
proof -
  let ?k = "nat \<lfloor>q / 100 * real (n - 1)\<rfloor>"
  have "q / 100 * real (n - 1) \<le> 1 * real (n - 1)"
    using assms(1,2) by (intro mult_right_mono) simp_all
  then have "\<lfloor>q / 100 * real (n - 1)\<rfloor> \<le> int (n - 1)"
    by (simp add: floor_le_iff)
  then have "?k \<le> n - 1" by simp
  with assms(3) have k: "?k < length (sort (replicate n c))" by simp
  have "sort (replicate n c) ! ?k \<in> set (sort (replicate n c))"
    using k by (rule nth_mem)
  moreover have "set (sort (replicate n c)) \<subseteq> {c}" by auto
  ultimately have "sort (replicate n c) ! ?k = c" by blast
  then show ?thesis by (simp only: stub_percentile_def length_replicate)
qed

lemma stub_subsample:
  assumes "rectangular df"
  shows "subsample (stub_lib cy cd) df =
     Inr (map (\<lambda>(c, cl). (c, cl\<lparr>col_cells := rev (drop (nrows df - n_sample df) (col_cells cl))\<rparr>)) df)"
proof -
  have "map (\<lambda>i. col_cells cl ! i) (sample_idx (stub_lib cy cd) df)
          = rev (drop (nrows df - n_sample df) (col_cells cl))"
    if "(c, cl) \<in> set df" for c cl
  proof -
    from assms that have "length (col_cells cl) = nrows df"
      by (auto simp: rectangular_def list_all_iff)
    then show ?thesis
      by (simp only: sample_idx_def stub_forest nth_rev_upt_drop)
  qed
  then show ?thesis
    by (auto simp: subsample_total)
qed

lemma stub_draw_leaves_out:
  "0 < n - k \<Longrightarrow> 0 \<notin> set (Rep_draw (random_choice (stub_lib cy cd)) seed n k)"
  by (simp add: stub_forest)

lemma mk_col_cells: "col_cells (mk_col t xs) = map Some xs"
  by (simp add: mk_col_def)

subsection \<open>Double selection on the small frame\<close>

lemma df_small_distinct: "distinct (columns df_small)"
  by code_simp

lemma df_small_ln_wage: "values_of df_small ''ln_wage'' = Inr [Some 10, Some 12, Some 9, Some 11]"
  by code_simp

lemma df_small_agri_post: "values_of df_small ''agri_post'' = Inr [Some 0, Some 1, Some 0, Some 1]"
  by code_simp

lemma df_small_k: "map_of df_small ''k'' = Some (mk_col Int64 [1, 1, 1, 1])"
  by code_simp

lemma df_small_k_values: "values_of df_small ''k'' = Inr [Some 1, Some 1, Some 1, Some 1]"
  by code_simp

lemma df_small_k_std: "series_std lib_small [Some 1, Some 1, Some 1, Some 1] = Some 0"
  by (simp add: lib_small_def stub_fits stub_std_zero_iff notna_values_def sq_dev_def mean_def)

lemma df_small_control_cols:
  "control_cols (stub_lib cy cd) df_small = Inr [''agri'', ''post'', ''age'', ''female'']"
  by (simp add: control_cols_def columns_def df_small_def mk_col_def exclude_cols_def
      get_column_def ds_numeric_def isna_any_def stub_fits stub_std_zero_iff notna_values_def
      sq_dev_def mean_def power2_eq_square)

lemma df_small_X:
  "select_columns df_small [''agri'', ''post'', ''age'', ''female''] =
     Inr [[Some 0, Some 1, Some 1, Some 1], [Some 1, Some 1, Some 0, Some 1],
          [Some 25, Some 40, Some 50, Some 60], [Some 0, Some 1, Some 0, Some 1]]"
  by code_simp

lemma df_small_covariance: "covariance_choice df_small = Inr (Cluster [Some 1, Some 1, Some 2, Some 2])"
  by code_simp

lemma selected_small:
  "selected coef_y_small = [1]" "selected coef_d_small = [2]" "selected [0, 0, 0, 0] = []"
  "union1d [1] [2] = [1, 2]" "union1d [] [] = []" "union1d [Suc 0] [2] = [Suc 0, 2]"
  by code_simp+

lemma small_two_classes: "\<not> length (remdups [Some 0, Some 1, Some 0, Some (1::real)]) < 2"
  by simp

lemma small_controls_not_constant:
  "\<forall>i\<in>set (selected coef_y_small) \<union> set (selected coef_d_small).
     \<not> is_nonzero_const
          ([[Some 0, Some 1, Some 1, Some 1], [Some 1, Some 1, Some 0, Some 1],
            [Some 25, Some 40, Some 50, Some 60], [Some 0, Some 1, Some 0, Some 1]] ! i)"
  by code_simp

lemma df_small_double_select:
  "double_select lib_small [''agri'', ''post'', ''age'', ''female'']
     [[Some 0, Some 1, Some 1, Some 1], [Some 1, Some 1, Some 0, Some 1],
      [Some 25, Some 40, Some 50, Some 60], [Some 0, Some 1, Some 0, Some 1]]
     [Some 10, Some 12, Some 9, Some 11] [Some 0, Some 1, Some 0, Some 1] = Inr [1, 2]"
  by (simp add: double_select_def bind_err_def lib_small_def stub_fits logistic_regression_cv_def
      selected_small[unfolded lib_small_def] small_two_classes)

lemma df_small_double_select_null:
  "double_select lib_null [''agri'', ''post'', ''age'', ''female'']
     [[Some 0, Some 1, Some 1, Some 1], [Some 1, Some 1, Some 0, Some 1],
      [Some 25, Some 40, Some 50, Some 60], [Some 0, Some 1, Some 0, Some 1]]
     [Some 10, Some 12, Some 9, Some 11] [Some 0, Some 1, Some 0, Some 1] = Inr []"
  by (simp add: double_select_def bind_err_def lib_null_def stub_fits logistic_regression_cv_def
      selected_small small_two_classes)

lemma df_small_final_design:
  "final_design df_small [Some 0, Some 1, Some 0, Some 1]
      (map ((!) [''agri'', ''post'', ''age'', ''female'']) [1, 2]) =
     Inr [[Some 1, Some 1, Some 1, Some 1], [Some 0, Some 1, Some 0, Some 1],
          [Some 1, Some 1, Some 0, Some 1], [Some 25, Some 40, Some 50, Some 60]]"
  by code_simp

lemma df_no_region_final_design:
  "final_design df_no_region [Some 0, Some 1, Some 0, Some 1]
      (map ((!) [''agri'', ''post'', ''age'', ''female'']) [1, 2]) =
     Inr [[Some 1, Some 1, Some 1, Some 1], [Some 0, Some 1, Some 0, Some 1],
          [Some 1, Some 1, Some 0, Some 1], [Some 25, Some 40, Some 50, Some 60]]"
  by code_simp

lemma df_small_final_design_null:
  "final_design df_small [Some 0, Some 1, Some 0, Some 1] [] =
     Inr [[Some 1, Some 1, Some 1, Some 1], [Some 0, Some 1, Some 0, Some 1]]"
  by code_simp

lemma df_small_region: "''region'' \<in> set (columns df_small)"
  by code_simp

lemma df_small_region_values: "values_of df_small ''region'' = Inr [Some 1, Some 1, Some 2, Some 2]"
  by code_simp

lemma df_no_region_region: "''region'' \<notin> set (columns df_no_region)"
  by code_simp

lemma df_no_region_covariance: "covariance_choice df_no_region = Inr HC1"
  by code_simp

lemma df_small_final_ols:
  "final_ols lib_small df_small [''agri'', ''post'', ''age'', ''female'']
      [Some 10, Some 12, Some 9, Some 11] [Some 0, Some 1, Some 0, Some 1] [1, 2] =
     Inr \<lparr>method_name = ''Post-Double-Selection LASSO'', coefficient = 2, std_error = 1,
          p_value = 1 / 20, ci_lower = 1 / 25, ci_upper = 99 / 25, n_controls_selected = 2,
          controls_selected = ''post, age'', n_obs = 4\<rparr>"
  using df_small_final_design
  by (simp add: final_ols_def bind_err_def df_small_covariance lib_small_def stub_fits
      stub_ols_def index1_def notna_values_def)

lemma df_no_region_final_ols:
  "final_ols lib_small df_no_region [''agri'', ''post'', ''age'', ''female'']
      [Some 10, Some 12, Some 9, Some 11] [Some 0, Some 1, Some 0, Some 1] [1, 2] =
     Inr \<lparr>method_name = ''Post-Double-Selection LASSO'', coefficient = 2, std_error = 1 / 2,
          p_value = 1 / 20, ci_lower = 51 / 50, ci_upper = 149 / 50, n_controls_selected = 2,
          controls_selected = ''post, age'', n_obs = 4\<rparr>"
  using df_no_region_final_design
  by (simp add: final_ols_def bind_err_def df_no_region_covariance lib_small_def stub_fits
      stub_ols_def index1_def notna_values_def)

lemma df_small_final_ols_null:
  "final_ols lib_null df_small [''agri'', ''post'', ''age'', ''female'']
      [Some 10, Some 12, Some 9, Some 11] [Some 0, Some 1, Some 0, Some 1] [] =
     Inr \<lparr>method_name = ''Post-Double-Selection LASSO'', coefficient = 2, std_error = 1,
          p_value = 1 / 20, ci_lower = 1 / 25, ci_upper = 99 / 25, n_controls_selected = 0,
          controls_selected = [], n_obs = 4\<rparr>"
  using df_small_final_design_null
  by (simp add: final_ols_def bind_err_def df_small_covariance lib_null_def stub_fits
      stub_ols_def index1_def notna_values_def)

lemma df_small_run:
  "double_selection lib_small df_small =
     Inr \<lparr>method_name = ''Post-Double-Selection LASSO'', coefficient = 2, std_error = 1,
          p_value = 1 / 20, ci_lower = 1 / 25, ci_upper = 99 / 25, n_controls_selected = 2,
          controls_selected = ''post, age'', n_obs = 4\<rparr>"
  using df_small_final_ols
  by (simp add: double_selection_def bind_err_def df_small_ln_wage df_small_agri_post
      df_small_control_cols[of coef_y_small coef_d_small, folded lib_small_def]
      df_small_X df_small_double_select del: select_columns.simps)

lemma df_small_run_null:
  "double_selection lib_null df_small =
     Inr \<lparr>method_name = ''Post-Double-Selection LASSO'', coefficient = 2, std_error = 1,
          p_value = 1 / 20, ci_lower = 1 / 25, ci_upper = 99 / 25, n_controls_selected = 0,
          controls_selected = [], n_obs = 4\<rparr>"
  by (simp add: double_selection_def bind_err_def df_small_ln_wage df_small_agri_post
      df_small_control_cols[of "[0, 0, 0, 0]" "[0, 0, 0, 0]", folded lib_null_def]
      df_small_X df_small_double_select_null df_small_final_ols_null del: select_columns.simps)

subsection \<open>The subsample of the small frame\<close>

lemma upt_0_4: "[0..<4] = [0, 1, 2, 3::nat]"
  by code_simp


lemma df_small_nrows: "nrows df_small = 4"
  by (simp add: nrows_def df_small_def mk_col_def)

lemma df_small_sample_idx: "sample_idx lib_small df_small = [3, 2, 1, 0]"
  by (simp add: sample_idx_def n_sample_def df_small_nrows lib_small_def stub_forest upt_0_4)

lemma df_small_subsample: "subsample lib_small df_small = Inr df_small_cf"
  by (simp add: subsample_def df_small_sample_idx iloc_def df_small_nrows)
     (simp add: df_small_def df_small_cf_def mk_col_def)

lemma df_small_cf_hetero: "hetero_vars df_small_cf = [''age'', ''female'', ''post'']"
  by (simp add: hetero_vars_def df_small_cf_def mk_col_def columns_def startswith_def
      is_numeric_dtype_def notna_all_def fromkeys_def)

lemma df_small_cf_nrows: "nrows df_small_cf = 4"
  by (simp add: nrows_def df_small_cf_def mk_col_def)

lemma df_small_cf_rows:
  "values_rows df_small_cf [''age'', ''female'', ''post''] =
     Inr [[Some 60, Some 1, Some 1], [Some 50, Some 0, Some 0],
          [Some 40, Some 1, Some 1], [Some 25, Some 0, Some 1]]"
  by (simp add: values_rows_def df_small_cf_nrows bind_err_def upt_0_4)
     (simp add: df_small_cf_def mk_col_def values_of_def get_column_def bind_err_def)

lemma df_small_prepare:
  "prepare_cf lib_small df_small =
     Inr (df_small_cf,
          [[Some 60, Some 1, Some 1], [Some 50, Some 0, Some 0],
           [Some 40, Some 1, Some 1], [Some 25, Some 0, Some 1]],
          [Some 11, Some 9, Some 12, Some 10],
          [Some 1, Some 1, Some 1, Some 0])"
proof -
  have Y: "values_of df_small_cf ''ln_wage'' = Inr [Some 11, Some 9, Some 12, Some 10]"
    by (simp add: df_small_cf_def mk_col_def values_of_def get_column_def bind_err_def)
  have T: "values_of df_small_cf ''agri'' = Inr [Some 1, Some 1, Some 1, Some 0]"
    by (simp add: df_small_cf_def mk_col_def values_of_def get_column_def bind_err_def)
  show ?thesis
    by (simp add: prepare_cf_def df_small_subsample Y T df_small_cf_hetero df_small_cf_rows bind_err_def)
qed

subsection \<open>The X-learner on the small frame\<close>

lemma small_rf_0:
  "random_forest_regressor_fit lib_small 10
     (mask_select (eq_mask [Some 1, Some 1, Some 1, Some 0] 0)
        [[Some 60, Some 1, Some 1], [Some 50, Some 0, Some 0], [Some 40, Some 1, Some 1], [Some 25, Some 0, Some 1]])
     (mask_select (eq_mask [Some 1, Some 1, Some 1, Some 0] 0) [Some 11, Some 9, Some 12, Some 10]) = Inr 10"
  by (simp add: eval_defs)

lemma small_rf_1:
  "random_forest_regressor_fit lib_small 10
     (mask_select (eq_mask [Some 1, Some 1, Some 1, Some 0] 1)
        [[Some 60, Some 1, Some 1], [Some 50, Some 0, Some 0], [Some 40, Some 1, Some 1], [Some 25, Some 0, Some 1]])
     (mask_select (eq_mask [Some 1, Some 1, Some 1, Some 0] 1) [Some 11, Some 9, Some 12, Some 10]) = Inr (32 / 3)"
  by (simp add: eval_defs)

lemma small_pseudo_control:
  "pseudo_control
     (predict lib_small (32 / 3)
        [[Some 60, Some 1, Some 1], [Some 50, Some 0, Some 0], [Some 40, Some 1, Some 1], [Some 25, Some 0, Some 1]])
     [Some 11, Some 9, Some 12, Some 10] (eq_mask [Some 1, Some 1, Some 1, Some 0] 0) = [Some (11 / 12)]"
  by (simp add: eval_defs)

lemma small_pseudo_treated:
  "pseudo_treated
     (predict lib_small 10
        [[Some 60, Some 1, Some 1], [Some 50, Some 0, Some 0], [Some 40, Some 1, Some 1], [Some 25, Some 0, Some 1]])
     [Some 11, Some 9, Some 12, Some 10] (eq_mask [Some 1, Some 1, Some 1, Some 0] 1)
   = [Some (2 / 5), Some (- 3 / 2), Some (8 / 5)]"
  by (simp add: eval_defs)

lemma small_tau_0:
  "random_forest_regressor_fit lib_small 8
     (mask_select (eq_mask [Some 1, Some 1, Some 1, Some 0] 0)
        [[Some 60, Some 1, Some 1], [Some 50, Some 0, Some 0], [Some 40, Some 1, Some 1], [Some 25, Some 0, Some 1]])
     [Some (11 / 12)] = Inr (11 / 12)"
  by (simp add: eval_defs)

lemma small_tau_1:
  "random_forest_regressor_fit lib_small 8
     (mask_select (eq_mask [Some 1, Some 1, Some 1, Some 0] 1)
        [[Some 60, Some 1, Some 1], [Some 50, Some 0, Some 0], [Some 40, Some 1, Some 1], [Some 25, Some 0, Some 1]])
     [Some (2 / 5), Some (- 3 / 2), Some (8 / 5)] = Inr (1 / 6)"
  by (simp add: eval_defs)

lemma small_ps:
  "random_forest_classifier_fit lib_small 8
     [[Some 60, Some 1, Some 1], [Some 50, Some 0, Some 0], [Some 40, Some 1, Some 1], [Some 25, Some 0, Some 1]]
     [Some 1, Some 1, Some 1, Some 0] = Inr (3 / 4)"
  by (simp add: eval_defs)

lemma small_core:
  "x_learner_core lib_small
     [[Some 60, Some 1, Some 1], [Some 50, Some 0, Some 0], [Some 40, Some 1, Some 1], [Some 25, Some 0, Some 1]]
     [Some 11, Some 9, Some 12, Some 10] [Some 1, Some 1, Some 1, Some 0]
   = ([OutcomeControl, OutcomeTreated, EffectControl, EffectTreated, Propensity],
      Inr [319 / 240, 59 / 48, 271 / 240, 47 / 48])"
  unfolding x_learner_core_def Let_def small_rf_0 small_rf_1 sum.case small_pseudo_control
    small_pseudo_treated small_tau_0 small_tau_1 small_ps
  by (simp add: eval_defs)

subsection \<open>Frames with one arm only\<close>






subsection \<open>The subsample of the large frame\<close>

lemma df_big_nrows: "nrows df_big = 30001"
  by (simp add: nrows_def df_big_def mk_col_def)

lemma df_big_rectangular: "rectangular df_big"
  by (simp add: rectangular_def df_big_nrows) (simp add: df_big_def mk_col_def)

lemma df_big_n_sample: "nrows df_big - n_sample df_big = 1"
  by (simp add: n_sample_def df_big_nrows)

lemma df_big_row_0:
  "values_of df_big ''ln_wage'' = Inr (Some 1000 # replicate 30000 (Some 10))"
  "values_of df_big ''age'' = Inr (Some 20 # replicate 30000 (Some 40))"
  by (simp_all add: df_big_def mk_col_def values_of_def get_column_def bind_err_def)

lemma replicate_30001: "replicate 30001 x = x # replicate 30000 x"
proof -
  have "replicate (Suc 30000) x = x # replicate 30000 x" by (rule replicate_Suc)
  then show ?thesis by simp
qed

lemma df_big_subsample: "subsample lib_small df_big = Inr df_big_cf"
  unfolding lib_small_def stub_subsample[OF df_big_rectangular] df_big_n_sample
  by (simp add: df_big_def df_big_cf_def mk_col_def replicate_30001 rev_map replicate_append_same)

lemma rows_of_replicate:
  "map (\<lambda>i. map (\<lambda>c. c ! i) [replicate n a, replicate n b, replicate n c]) [0..<n]
     = replicate n [a, b, c]"
  by (intro nth_equalityI) simp_all

lemma df_big_cf_nrows: "nrows df_big_cf = 30000"
  by (simp add: nrows_def df_big_cf_def mk_col_def)

lemma df_big_cf_hetero: "hetero_vars df_big_cf = [''age'', ''female'', ''post'']"
  by (simp add: hetero_vars_def df_big_cf_def mk_col_def columns_def startswith_def
      is_numeric_dtype_def notna_all_def fromkeys_def)

lemma df_big_cf_rows:
  "values_rows df_big_cf [''age'', ''female'', ''post''] = Inr (replicate 30000 [Some 40, Some 0, Some 1])"
proof -
  have "select_columns df_big_cf [''age'', ''female'', ''post''] =
      Inr [replicate 30000 (Some 40), replicate 30000 (Some 0), replicate 30000 (Some 1)]"
    by (simp add: df_big_cf_def mk_col_def values_of_def get_column_def bind_err_def)
  then show ?thesis
    by (simp only: values_rows_def df_big_cf_nrows bind_err_def sum.case rows_of_replicate)
qed

lemma df_big_prepare:
  "prepare_cf lib_small df_big =
     Inr (df_big_cf, replicate 30000 [Some 40, Some 0, Some 1], replicate 30000 (Some 10),
          Some 0 # replicate 29999 (Some 1))"
proof -
  have Y: "values_of df_big_cf ''ln_wage'' = Inr (replicate 30000 (Some 10))"
    by (simp add: df_big_cf_def mk_col_def values_of_def get_column_def bind_err_def)
  have T: "values_of df_big_cf ''agri'' = Inr (Some 0 # replicate 29999 (Some 1))"
    by (simp add: df_big_cf_def mk_col_def values_of_def get_column_def bind_err_def)
  show ?thesis
    by (simp add: prepare_cf_def df_big_subsample Y T df_big_cf_hetero df_big_cf_rows bind_err_def)
qed

subsection \<open>The X-learner on the large frame\<close>

lemma big_masks:
  "eq_mask (Some 0 # replicate a (Some 1)) 0 = True # replicate a False"
  "eq_mask (Some 0 # replicate a (Some 1)) 1 = False # replicate a True"
  by (simp_all add: eq_mask_def)

lemma big_select:
  "mask_select (True # replicate a False) (x # xs) = [x]"
  "length xs = a \<Longrightarrow> mask_select (False # replicate a True) (x # xs) = xs"
  by (simp_all add: mask_select_Cons mask_select_none mask_select_all)

lemma big_predict:
  "predict (stub_lib cy cd) m (replicate n [Some 40, Some 0, Some 1]) = replicate n (m + 2 / 5)"
  by (simp add: predict_def stub_forest notna_values_Cons notna_values_def map_filter_simps)

lemma big_fit:
  "X \<noteq> [] \<Longrightarrow> random_forest_regressor_fit (stub_lib cy cd) k X y = Inr (mean (notna_values y))"
  "X \<noteq> [] \<Longrightarrow> random_forest_classifier_fit (stub_lib cy cd) k X y = Inr (mean (notna_values y))"
  by (simp_all add: random_forest_regressor_fit_def random_forest_classifier_fit_def stub_forest)

lemma big_proba:
  "predict_proba_1 (stub_lib cy cd) p (replicate n row) = Inr (replicate n p)"
  by (simp add: predict_proba_1_def stub_forest list_all_iff)

lemma big_combine:
  "combine (replicate n e) (replicate n t0) (replicate n t1) = replicate n (e * t0 + (1 - e) * t1)"
  by (simp add: combine_def)

lemma big_core:
  assumes "0 < a"
  shows "x_learner_core (stub_lib cy cd) (replicate (Suc a) [Some 40, Some 0, Some 1])
           (replicate (Suc a) (Some 10)) (Some 0 # replicate a (Some 1))
         = ([OutcomeControl, OutcomeTreated, EffectControl, EffectTreated, Propensity],
            Inr (replicate (Suc a) (real a / real (Suc a) * (4 / 5))))"
proof -
  let ?row = "[Some 40, Some 0, Some (1::real)]"
  let ?X = "?row # replicate a ?row"
  let ?Y = "Some (10::real) # replicate a (Some 10)"
  let ?T = "Some (0::real) # replicate a (Some 1)"
  let ?lib = "stub_lib cy cd"
  have X0: "mask_select (eq_mask ?T 0) ?X = [?row]" and Y0: "mask_select (eq_mask ?T 0) ?Y = [Some 10]"
    and X1: "mask_select (eq_mask ?T 1) ?X = replicate a ?row"
    and Y1: "mask_select (eq_mask ?T 1) ?Y = replicate a (Some 10)"
    by (simp_all add: big_masks big_select)
  have ne: "replicate a ?row \<noteq> []" using assms by simp
  have rf_0: "random_forest_regressor_fit ?lib 10 [?row] [Some 10] = Inr 10"
    by (simp add: big_fit notna_values_Cons notna_values_def map_filter_simps mean_def)
  have rf_1: "random_forest_regressor_fit ?lib 10 (replicate a ?row) (replicate a (Some 10)) = Inr 10"
    using assms by (simp add: big_fit[OF ne] notna_values_replicate mean_replicate)
  have mu: "predict ?lib 10 ?X = (52 / 5) # replicate a (52 / 5)"
    using big_predict[of cy cd 10 "Suc a"] by simp
  have D0: "pseudo_control ((52 / 5) # replicate a (52 / 5)) ?Y (eq_mask ?T 0) = [Some (2 / 5)]"
    by (simp add: pseudo_control_def big_masks big_select fsub_def)
  have D1: "pseudo_treated ((52 / 5) # replicate a (52 / 5)) ?Y (eq_mask ?T 1) = replicate a (Some (- 2 / 5))"
    by (simp add: pseudo_treated_def big_masks big_select fsub_def)
  have tau_0: "random_forest_regressor_fit ?lib 8 [?row] [Some (2 / 5)] = Inr (2 / 5)"
    by (simp add: big_fit notna_values_Cons notna_values_def map_filter_simps mean_def)
  have tau_1: "random_forest_regressor_fit ?lib 8 (replicate a ?row) (replicate a (Some (- 2 / 5))) = Inr (- 2 / 5)"
    using assms by (simp add: big_fit[OF ne] notna_values_replicate mean_replicate)
  have ps: "random_forest_classifier_fit ?lib 8 ?X ?T = Inr (real a / real (Suc a))"
    using assms by (simp add: big_fit notna_values_Cons notna_values_replicate mean_def sum_list_replicate)
  have p0: "predict ?lib (2 / 5) ?X = replicate (Suc a) (4 / 5)"
    using big_predict[of cy cd "2 / 5" "Suc a"] by simp
  have p1: "predict ?lib (- 2 / 5) ?X = replicate (Suc a) 0"
    using big_predict[of cy cd "- 2 / 5" "Suc a"] by simp
  have e: "predict_proba_1 ?lib (real a / real (Suc a)) ?X = Inr (replicate (Suc a) (real a / real (Suc a)))"
    using big_proba[of cy cd _ "Suc a"] by simp
  have "x_learner_core ?lib ?X ?Y ?T
         = ([OutcomeControl, OutcomeTreated, EffectControl, EffectTreated, Propensity],
            Inr (replicate (Suc a) (real a / real (Suc a) * (4 / 5))))"
    unfolding x_learner_core_def Let_def X0 Y0 X1 Y1 rf_0 rf_1 sum.case mu D0 D1 tau_0 tau_1 ps e p0 p1
      big_combine
    by simp
  then show ?thesis by simp
qed

lemma big_range_mask:
  "range_mask (replicate n (Some x)) lo hi = replicate n (lo \<le> x \<and> x < hi)"
  by (simp add: range_mask_def)

lemma big_eq_mask: "eq_mask (replicate n (Some x)) v = replicate n (x = v)"
  by (simp add: eq_mask_def)

lemma big_subgroup:
  "subgroup_summary lib (replicate n False) tau = None"
  "length tau = n \<Longrightarrow> 0 < n \<Longrightarrow>
     subgroup_summary lib (replicate n True) tau = Some (mean tau, series_std lib (map Some tau), n)"
  by (auto simp: subgroup_summary_def mask_select_none mask_select_all)

lemma big_summarise:
  "summarise lib_small df_big_cf (replicate 30000 c) =
     Inr \<lparr>tau_hat = replicate 30000 c, mean_tau = c, std_tau = 0, median_tau = c,
          p10_tau = c, p25_tau = c, p75_tau = c, p90_tau = c, cf_n_obs = 30000,
          by_age = [None, Some (c, Some 0, 30000), None, None],
          by_gender = [Some (c, Some 0, 30000), None],
          by_period = [None, Some (c, Some 0, 30000)]\<rparr>"
proof -
  have v: "values_of df_big_cf ''age'' = Inr (replicate 30000 (Some 40))"
    "values_of df_big_cf ''female'' = Inr (replicate 30000 (Some 0))"
    "values_of df_big_cf ''post'' = Inr (replicate 30000 (Some 1))"
    by (simp_all add: df_big_cf_def mk_col_def values_of_def get_column_def bind_err_def)
  show ?thesis
    unfolding summarise_def v bind_err_def sum.case lib_small_def stub_summaries
    by (simp add: big_range_mask big_eq_mask big_subgroup mean_replicate stub_np_std_replicate
        stub_percentile_replicate stub_fits stub_std_replicate)
qed

lemma big_x_learner:
  "x_learner lib_small df_big =
     ([OutcomeControl, OutcomeTreated, EffectControl, EffectTreated, Propensity],
      Inr \<lparr>tau_hat = replicate 30000 (29999 / 37500), mean_tau = 29999 / 37500, std_tau = 0,
          median_tau = 29999 / 37500, p10_tau = 29999 / 37500, p25_tau = 29999 / 37500,
          p75_tau = 29999 / 37500, p90_tau = 29999 / 37500, cf_n_obs = 30000,
          by_age = [None, Some (29999 / 37500, Some 0, 30000), None, None],
          by_gender = [Some (29999 / 37500, Some 0, 30000), None],
          by_period = [None, Some (29999 / 37500, Some 0, 30000)]\<rparr>)"
proof -
  have "x_learner_core lib_small (replicate (Suc 29999) [Some 40, Some 0, Some 1])
           (replicate (Suc 29999) (Some 10)) (Some 0 # replicate 29999 (Some 1))
         = ([OutcomeControl, OutcomeTreated, EffectControl, EffectTreated, Propensity],
            Inr (replicate (Suc 29999) (real 29999 / real (Suc 29999) * (4 / 5))))"
    unfolding lib_small_def by (rule big_core) simp
  then have core: "x_learner_core lib_small (replicate 30000 [Some 40, Some 0, Some 1])
           (replicate 30000 (Some 10)) (Some 0 # replicate 29999 (Some 1))
         = ([OutcomeControl, OutcomeTreated, EffectControl, EffectTreated, Propensity],
            Inr (replicate 30000 (29999 / 37500)))"
    by simp
  show ?thesis
    by (simp add: x_learner_def df_big_prepare core big_summarise)
qed

section \<open>The claims\<close>

text \<open>
  C1.  Whenever the double-selection run reports a result \<open>r\<close>, and no control column
  selected by either penalised fit is a nonzero constant, the reported coefficient is the
  entry, at the treatment regressor's position, of the parameter vector of the
  least-squares fit of the outcome on the constant, the treatment \<open>D\<close> and the
  candidate-control columns whose positions lie in the union of the two selected sets
  \<open>selected coef_y\<close> (outcome-side L1 regression) and \<open>selected coef_d\<close> (treatment-side
  L1 logistic regression).  (The specification's design matrix has no constant column,
  and the filter of line 149 removes the columns whose computed standard deviation is
  0; a constant column that passed the filter and was selected would make
  \<open>sm.add_constant\<close> leave out the intercept.)
\<close>

theorem double_selection_coefficient:
  assumes "double_selection lib df = Inr r"
    and "values_of df ''ln_wage'' = Inr Y" and "values_of df ''agri_post'' = Inr D"
    and "control_cols lib df = Inr cc" and "select_columns df cc = Inr X"
    and "scaler_fit_transform lib X = Inr X_scaled"
    and "lasso_cv_fit lib X_scaled Y = Inr coef_y"
    and "logistic_cv_fit lib X_scaled D = Inr coef_d"
    and "covariance_choice df = Inr cov"
    and "\<forall>i\<in>set (selected coef_y) \<union> set (selected coef_d). \<not> is_nonzero_const (X ! i)"
  shows "spec_design D X (set (selected coef_y) \<union> set (selected coef_d)) ! 1 = D \<and>
         coefficient r =
           params (ols_fit lib cov
             (spec_design D X (set (selected coef_y) \<union> set (selected coef_d))) Y) ! 1"
proof
  show "spec_design D X (set (selected coef_y) \<union> set (selected coef_d)) ! 1 = D"
    by (simp add: spec_design_def)
  show "coefficient r =
           params (ols_fit lib cov
             (spec_design D X (set (selected coef_y) \<union> set (selected coef_d))) Y) ! 1"
    by (subst double_selection_design[OF assms]) simp
qed

theorem double_selection_coefficient_witness:
  "double_selection lib_small df_small =
     Inr \<lparr>method_name = ''Post-Double-Selection LASSO'', coefficient = 2, std_error = 1,
          p_value = 1 / 20, ci_lower = 1 / 25, ci_upper = 99 / 25, n_controls_selected = 2,
          controls_selected = ''post, age'', n_obs = 4\<rparr> \<and>
   set (selected coef_y_small) \<union> set (selected coef_d_small) = {1, 2} \<and>
   \<not> is_nonzero_const [Some 1, Some 1, Some 0, Some 1] \<and>
   \<not> is_nonzero_const [Some 25, Some 40, Some 50, Some 60] \<and>
   (2::real) =
     params (stub_ols (Cluster [Some 1, Some 1, Some 2, Some 2])
       (spec_design [Some 0, Some 1, Some 0, Some 1]
          [[Some 0, Some 1, Some 1, Some 1], [Some 1, Some 1, Some 0, Some 1],
           [Some 25, Some 40, Some 50, Some 60], [Some 0, Some 1, Some 0, Some 1]]
          {1, 2})
       [Some 10, Some 12, Some 9, Some 11]) ! 1"
proof -
  have U: "set (selected coef_y_small) \<union> set (selected coef_d_small) = {1, 2}"
    by code_simp
  have nc: "\<not> is_nonzero_const [Some 1, Some 1, Some 0, Some 1]"
    "\<not> is_nonzero_const [Some 25, Some 40, Some 50, Some 60]"
    by code_simp+
  have "coefficient \<lparr>method_name = ''Post-Double-Selection LASSO'', coefficient = 2, std_error = 1,
          p_value = 1 / 20, ci_lower = 1 / 25, ci_upper = 99 / 25, n_controls_selected = 2,
          controls_selected = ''post, age'', n_obs = 4\<rparr> =
     params (ols_fit lib_small (Cluster [Some 1, Some 1, Some 2, Some 2])
       (spec_design [Some 0, Some 1, Some 0, Some 1]
          [[Some 0, Some 1, Some 1, Some 1], [Some 1, Some 1, Some 0, Some 1],
           [Some 25, Some 40, Some 50, Some 60], [Some 0, Some 1, Some 0, Some 1]]
          (set (selected coef_y_small) \<union> set (selected coef_d_small)))
       [Some 10, Some 12, Some 9, Some 11]) ! 1"
    using double_selection_coefficient[OF df_small_run df_small_ln_wage df_small_agri_post
        df_small_control_cols[of coef_y_small coef_d_small, folded lib_small_def] df_small_X,
        of _ coef_y_small coef_d_small]
      df_small_covariance small_controls_not_constant
    by (simp add: lib_small_def stub_fits)
  then show ?thesis
    using df_small_run U nc by (simp add: lib_small_def stub_fits)
qed

text \<open>
  C2.  For every row \<open>j\<close> of the covariate matrix, the final effect estimate is
  \<open>e * t0 + (1 - e) * t1\<close>, where \<open>e\<close> is the propensity model's probability of the
  second class at the row, \<open>t0\<close> the prediction of the effect model fitted on the control
  rows and \<open>t1\<close> the prediction of the effect model fitted on the treated rows; when
  \<open>e\<close> lies in \<open>[0, 1]\<close>, the estimate lies between \<open>t0\<close> and \<open>t1\<close>.
\<close>

theorem x_learner_combination:
  assumes "x_learner_core lib X_cf Y_cf T_cf = (fitted, Inr tau)"
    and "random_forest_regressor_fit lib 10 (mask_select (eq_mask T_cf 0) X_cf)
           (mask_select (eq_mask T_cf 0) Y_cf) = Inr rf_0"
    and "random_forest_regressor_fit lib 10 (mask_select (eq_mask T_cf 1) X_cf)
           (mask_select (eq_mask T_cf 1) Y_cf) = Inr rf_1"
    and "random_forest_regressor_fit lib 8 (mask_select (eq_mask T_cf 0) X_cf)
           (pseudo_control (predict lib rf_1 X_cf) Y_cf (eq_mask T_cf 0)) = Inr tau_0_model"
    and "random_forest_regressor_fit lib 8 (mask_select (eq_mask T_cf 1) X_cf)
           (pseudo_treated (predict lib rf_0 X_cf) Y_cf (eq_mask T_cf 1)) = Inr tau_1_model"
    and "random_forest_classifier_fit lib 8 X_cf T_cf = Inr ps_model"
    and "j < length X_cf"
  shows "tau ! j =
           forest_predict_proba lib ps_model (X_cf ! j) ! 1 * forest_predict lib tau_0_model (X_cf ! j)
           + (1 - forest_predict_proba lib ps_model (X_cf ! j) ! 1) * forest_predict lib tau_1_model (X_cf ! j)
         \<and> (0 \<le> forest_predict_proba lib ps_model (X_cf ! j) ! 1
              \<and> forest_predict_proba lib ps_model (X_cf ! j) ! 1 \<le> 1 \<longrightarrow>
            min (forest_predict lib tau_0_model (X_cf ! j)) (forest_predict lib tau_1_model (X_cf ! j))
              \<le> tau ! j
            \<and> tau ! j
              \<le> max (forest_predict lib tau_0_model (X_cf ! j)) (forest_predict lib tau_1_model (X_cf ! j)))"
proof -
  from assms(1) obtain rf_0' rf_1' tau_0_model' tau_1_model' ps_model' e_x where
    f: "random_forest_regressor_fit lib 10 (mask_select (eq_mask T_cf 0) X_cf)
           (mask_select (eq_mask T_cf 0) Y_cf) = Inr rf_0'"
       "random_forest_regressor_fit lib 10 (mask_select (eq_mask T_cf 1) X_cf)
           (mask_select (eq_mask T_cf 1) Y_cf) = Inr rf_1'"
    and g: "random_forest_regressor_fit lib 8 (mask_select (eq_mask T_cf 0) X_cf)
           (pseudo_control (predict lib rf_1' X_cf) Y_cf (eq_mask T_cf 0)) = Inr tau_0_model'"
       "random_forest_regressor_fit lib 8 (mask_select (eq_mask T_cf 1) X_cf)
           (pseudo_treated (predict lib rf_0' X_cf) Y_cf (eq_mask T_cf 1)) = Inr tau_1_model'"
    and h: "random_forest_classifier_fit lib 8 X_cf T_cf = Inr ps_model'"
    and e: "predict_proba_1 lib ps_model' X_cf = Inr e_x"
    and tau: "tau = combine e_x (predict lib tau_0_model' X_cf) (predict lib tau_1_model' X_cf)"
    by (rule x_learner_core_InrD)
  from f assms(2,3) have "rf_0' = rf_0" "rf_1' = rf_1" by simp_all
  with g assms(4,5) have m: "tau_0_model' = tau_0_model" "tau_1_model' = tau_1_model" by simp_all
  from h assms(6) have p: "ps_model' = ps_model" by simp
  have ex: "e_x = map (\<lambda>row. forest_predict_proba lib ps_model row ! 1) X_cf"
    using predict_proba_1_Inr[OF e] p by simp
  have eq: "tau ! j =
           forest_predict_proba lib ps_model (X_cf ! j) ! 1 * forest_predict lib tau_0_model (X_cf ! j)
           + (1 - forest_predict_proba lib ps_model (X_cf ! j) ! 1) * forest_predict lib tau_1_model (X_cf ! j)"
    unfolding tau m
    using combine_nth[of e_x "length X_cf" "predict lib tau_0_model X_cf" "predict lib tau_1_model X_cf" j]
      assms(7)
    by (simp add: ex predict_def)
  show ?thesis
    unfolding eq using convex_between by blast
qed

theorem x_learner_combination_witness:
  "x_learner_core lib_small
     [[Some 60, Some 1, Some 1], [Some 50, Some 0, Some 0], [Some 40, Some 1, Some 1], [Some 25, Some 0, Some 1]]
     [Some 11, Some 9, Some 12, Some 10] [Some 1, Some 1, Some 1, Some 0]
   = ([OutcomeControl, OutcomeTreated, EffectControl, EffectTreated, Propensity],
      Inr [319 / 240, 59 / 48, 271 / 240, 47 / 48]) \<and>
   forest_predict_proba lib_small (3 / 4) [Some 50, Some 0, Some 0] ! 1 = 3 / 4 \<and>
   forest_predict lib_small (11 / 12) [Some 50, Some 0, Some 0] = 17 / 12 \<and>
   forest_predict lib_small (1 / 6) [Some 50, Some 0, Some 0] = 2 / 3 \<and>
   [319 / 240, 59 / 48, 271 / 240, 47 / 48] ! 1 = (3 / 4 * (17 / 12) + (1 - 3 / 4) * (2 / 3) :: real) \<and>
   min (17 / 12) (2 / 3) \<le> ([319 / 240, 59 / 48, 271 / 240, 47 / 48] ! 1 :: real) \<and>
   ([319 / 240, 59 / 48, 271 / 240, 47 / 48] ! 1 :: real) \<le> max (17 / 12) (2 / 3)"
proof -
  have j: "1 < length [[Some 60, Some 1, Some 1], [Some 50, Some 0, Some 0],
                       [Some 40, Some 1, Some 1], [Some 25, Some 0, Some (1::real)]]"
    by simp
  have v: "forest_predict_proba lib_small (3 / 4) [Some 50, Some 0, Some 0] ! 1 = 3 / 4"
    "forest_predict lib_small (11 / 12) [Some 50, Some 0, Some 0] = 17 / 12"
    "forest_predict lib_small (1 / 6) [Some 50, Some 0, Some 0] = 2 / 3"
    by (simp_all add: lib_small_def stub_forest notna_values_def)
  note t = x_learner_combination[OF small_core small_rf_0 small_rf_1
      small_tau_0[folded small_pseudo_control] small_tau_1[folded small_pseudo_treated] small_ps j]
  from t v show ?thesis
    using small_core by simp
qed

text \<open>
  C3 (amended).  On a frame whose column names are distinct, building the list of
  candidate controls never raises.  A column for which \<open>Series.std()\<close> returns exactly
  0 is left out of the list, without any error; the candidates are exactly the columns
  that are not excluded by name, have one of the four numeric dtypes, have no missing
  cell and a computed standard deviation other than 0.
\<close>

theorem zero_variance_column_dropped:
  assumes "distinct (columns df)"
  shows "\<exists>cc. control_cols lib df = Inr cc \<and>
     (\<forall>c cl. map_of df c = Some cl \<and> series_std lib (col_cells cl) = Some 0 \<longrightarrow> c \<notin> set cc) \<and>
     (\<forall>c. c \<in> set cc \<longleftrightarrow>
        c \<in> set (columns df) \<and> c \<notin> set exclude_cols \<and>
        (\<exists>cl. map_of df c = Some cl \<and> ds_numeric (col_dtype cl) \<and> \<not> isna_any (col_cells cl)
           \<and> series_std lib (col_cells cl) \<noteq> Some 0))"
proof -
  from control_cols_characterised[OF assms, of lib] obtain cc where cc: "control_cols lib df = Inr cc"
    and ch: "\<forall>c. c \<in> set cc \<longleftrightarrow>
        c \<in> set (columns df) \<and> c \<notin> set exclude_cols \<and>
        (\<exists>cl. map_of df c = Some cl \<and> ds_numeric (col_dtype cl) \<and> \<not> isna_any (col_cells cl)
           \<and> series_std lib (col_cells cl) \<noteq> Some 0)"
    by blast
  have "\<forall>c cl. map_of df c = Some cl \<and> series_std lib (col_cells cl) = Some 0 \<longrightarrow> c \<notin> set cc"
    using ch by auto
  with cc ch show ?thesis by blast
qed

theorem zero_variance_column_dropped_witness:
  "distinct (columns df_small) \<and>
   map_of df_small ''k'' = Some (mk_col Int64 [1, 1, 1, 1]) \<and>
   series_std lib_small (col_cells (mk_col Int64 [1, 1, 1, 1])) = Some 0 \<and>
   control_cols lib_small df_small = Inr [''agri'', ''post'', ''age'', ''female''] \<and>
   ''k'' \<notin> set [''agri'', ''post'', ''age'', ''female'']"
proof -
  have k: "series_std lib_small (col_cells (mk_col Int64 [1, 1, 1, 1])) = Some 0"
    using df_small_k_std by (simp add: mk_col_cells)
  have c: "control_cols lib_small df_small = Inr [''agri'', ''post'', ''age'', ''female'']"
    unfolding lib_small_def by (rule df_small_control_cols)
  from zero_variance_column_dropped[OF df_small_distinct, of lib_small] obtain cc where
    cc: "control_cols lib_small df_small = Inr cc"
    and z: "\<forall>c cl. map_of df_small c = Some cl \<and> series_std lib_small (col_cells cl) = Some 0
              \<longrightarrow> c \<notin> set cc"
    by blast
  from cc c have "cc = [''agri'', ''post'', ''age'', ''female'']" by simp
  moreover from z df_small_k k have "''k'' \<notin> set cc" by blast
  ultimately show ?thesis
    using df_small_distinct df_small_k k c by simp
qed

theorem zero_variance_column_counterexample:
  "values_of df_small ''k'' = Inr [Some 1, Some 1, Some 1, Some 1] \<and>
   series_std lib_small [Some 1, Some 1, Some 1, Some 1] = Some 0 \<and>
   control_cols lib_small df_small = Inr [''agri'', ''post'', ''age'', ''female''] \<and>
   select_columns df_small [''agri'', ''post'', ''age'', ''female''] =
     Inr [[Some 0, Some 1, Some 1, Some 1], [Some 1, Some 1, Some 0, Some 1],
          [Some 25, Some 40, Some 50, Some 60], [Some 0, Some 1, Some 0, Some 1]]"
proof -
  have "control_cols lib_small df_small = Inr [''agri'', ''post'', ''age'', ''female'']"
    unfolding lib_small_def by (rule df_small_control_cols)
  then show ?thesis
    using df_small_k_values df_small_k_std df_small_X by simp
qed




text \<open>
  C5.  When neither penalised fit selects a control, the final fit is the least-squares
  fit of the outcome on the constant and the treatment alone, and the reported row shows
  it: the number of selected controls is 0 and the list of their names is empty.  The
  reported number of controls is 0 in no other case.
\<close>

theorem empty_union_treatment_only:
  assumes "double_selection lib df = Inr r"
    and "values_of df ''ln_wage'' = Inr Y" and "values_of df ''agri_post'' = Inr D"
    and "control_cols lib df = Inr cc" and "select_columns df cc = Inr X"
    and "scaler_fit_transform lib X = Inr X_scaled"
    and "lasso_cv_fit lib X_scaled Y = Inr coef_y"
    and "logistic_cv_fit lib X_scaled D = Inr coef_d"
    and "covariance_choice df = Inr cov"
  shows "(set (selected coef_y) \<union> set (selected coef_d) = {} \<longrightarrow>
            coefficient r = params (ols_fit lib cov [replicate (length D) (Some 1), D] Y) ! 1 \<and>
            std_error r = bse (ols_fit lib cov [replicate (length D) (Some 1), D] Y) ! 1 \<and>
            p_value r = pvalues (ols_fit lib cov [replicate (length D) (Some 1), D] Y) ! 1 \<and>
            n_controls_selected r = 0 \<and> controls_selected r = []) \<and>
         (n_controls_selected r = 0 \<longrightarrow> set (selected coef_y) \<union> set (selected coef_d) = {})"
proof (intro conjI impI)
  assume e: "set (selected coef_y) \<union> set (selected coef_d) = {}"
  then have nc: "\<forall>i\<in>set (selected coef_y) \<union> set (selected coef_d). \<not> is_nonzero_const (X ! i)"
    by simp
  have s: "spec_design D X {} = [replicate (length D) (Some 1), D]"
    by (simp add: spec_design_def)
  note d = double_selection_design[OF assms nc, unfolded e s]
  show "coefficient r = params (ols_fit lib cov [replicate (length D) (Some 1), D] Y) ! 1"
    by (subst d) simp
  show "std_error r = bse (ols_fit lib cov [replicate (length D) (Some 1), D] Y) ! 1"
    by (subst d) simp
  show "p_value r = pvalues (ols_fit lib cov [replicate (length D) (Some 1), D] Y) ! 1"
    by (subst d) simp
  show "n_controls_selected r = 0" by (subst d) simp
  show "controls_selected r = []" by (subst d) simp
next
  assume "n_controls_selected r = 0"
  then show "set (selected coef_y) \<union> set (selected coef_d) = {}"
    using double_selection_n_controls[OF assms(1-8)] by simp
qed

theorem empty_union_treatment_only_witness:
  "set (selected [0, 0, 0, 0]) \<union> set (selected [0, 0, 0, 0]) = {} \<and>
   double_selection lib_null df_small =
     Inr \<lparr>method_name = ''Post-Double-Selection LASSO'', coefficient = 2, std_error = 1,
          p_value = 1 / 20, ci_lower = 1 / 25, ci_upper = 99 / 25, n_controls_selected = 0,
          controls_selected = [], n_obs = 4\<rparr> \<and>
   (2::real) = params (stub_ols (Cluster [Some 1, Some 1, Some 2, Some 2])
        [replicate (length [Some 0, Some 1, Some 0, Some (1::real)]) (Some 1), [Some 0, Some 1, Some 0, Some 1]]
        [Some 10, Some 12, Some 9, Some 11]) ! 1"
proof -
  have U: "set (selected [0, 0, 0, 0]) \<union> set (selected [0, 0, 0, 0]) = {}"
    by (simp add: selected_def)
  have "coefficient \<lparr>method_name = ''Post-Double-Selection LASSO'', coefficient = 2, std_error = 1,
          p_value = 1 / 20, ci_lower = 1 / 25, ci_upper = 99 / 25, n_controls_selected = 0,
          controls_selected = [], n_obs = 4\<rparr> =
      params (ols_fit lib_null (Cluster [Some 1, Some 1, Some 2, Some 2])
        [replicate (length [Some 0, Some 1, Some 0, Some (1::real)]) (Some 1), [Some 0, Some 1, Some 0, Some 1]]
        [Some 10, Some 12, Some 9, Some 11]) ! 1"
    using empty_union_treatment_only[OF df_small_run_null df_small_ln_wage df_small_agri_post
        df_small_control_cols[of "[0, 0, 0, 0]" "[0, 0, 0, 0]", folded lib_null_def] df_small_X,
        of _ "[0, 0, 0, 0]" "[0, 0, 0, 0]"]
      df_small_covariance U
    by (simp add: lib_null_def stub_fits)
  then show ?thesis
    using df_small_run_null U by (simp add: lib_null_def stub_fits)
qed

text \<open>
  C6.  In a run of the X-learner that returns its effect array, let \<open>rf_0\<close> and \<open>rf_1\<close>
  be the outcome models fitted on the control rows and on the treated rows.  The two
  effect models whose predictions the run combines are fitted on the pseudo-outcomes:
  the one of the control arm on \<open>pseudo_control\<close>, the one of the treated arm on
  \<open>pseudo_treated\<close>.  The pseudo-outcomes of the control arm hold one entry per control
  row, in row order, and the entry of a control row is \<open>rf_1\<close>'s prediction at the row's
  covariates minus the row's observed outcome; likewise the entry of a treated row is
  its observed outcome minus \<open>rf_0\<close>'s prediction at its covariates.  (A missing outcome
  gives NaN.)
\<close>

theorem pseudo_outcome_rows:
  assumes "x_learner_core lib X_cf Y_cf T_cf = (fitted, Inr tau)"
    and "random_forest_regressor_fit lib 10 (mask_select (eq_mask T_cf 0) X_cf)
           (mask_select (eq_mask T_cf 0) Y_cf) = Inr rf_0"
    and "random_forest_regressor_fit lib 10 (mask_select (eq_mask T_cf 1) X_cf)
           (mask_select (eq_mask T_cf 1) Y_cf) = Inr rf_1"
    and "length X_cf = length T_cf" and "length Y_cf = length T_cf" and "i < length T_cf"
  shows "(\<exists>tau_0_model tau_1_model ps_model e_x.
            random_forest_regressor_fit lib 8 (mask_select (eq_mask T_cf 0) X_cf)
              (pseudo_control (predict lib rf_1 X_cf) Y_cf (eq_mask T_cf 0)) = Inr tau_0_model \<and>
            random_forest_regressor_fit lib 8 (mask_select (eq_mask T_cf 1) X_cf)
              (pseudo_treated (predict lib rf_0 X_cf) Y_cf (eq_mask T_cf 1)) = Inr tau_1_model \<and>
            random_forest_classifier_fit lib 8 X_cf T_cf = Inr ps_model \<and>
            predict_proba_1 lib ps_model X_cf = Inr e_x \<and>
            tau = combine e_x (predict lib tau_0_model X_cf) (predict lib tau_1_model X_cf)) \<and>
         length (pseudo_control (predict lib rf_1 X_cf) Y_cf (eq_mask T_cf 0))
           = length (filter (\<lambda>t. t = Some 0) T_cf) \<and>
         length (pseudo_treated (predict lib rf_0 X_cf) Y_cf (eq_mask T_cf 1))
           = length (filter (\<lambda>t. t = Some 1) T_cf) \<and>
         (T_cf ! i = Some 0 \<longrightarrow>
            pseudo_control (predict lib rf_1 X_cf) Y_cf (eq_mask T_cf 0)
              ! length (filter (\<lambda>t. t = Some 0) (take i T_cf))
            = fsub (Some (forest_predict lib rf_1 (X_cf ! i))) (Y_cf ! i)) \<and>
         (T_cf ! i = Some 1 \<longrightarrow>
            pseudo_treated (predict lib rf_0 X_cf) Y_cf (eq_mask T_cf 1)
              ! length (filter (\<lambda>t. t = Some 1) (take i T_cf))
            = fsub (Y_cf ! i) (Some (forest_predict lib rf_0 (X_cf ! i))))"
proof -
  from assms(1) obtain rf_0' rf_1' tau_0_model tau_1_model ps_model e_x where
    f: "random_forest_regressor_fit lib 10 (mask_select (eq_mask T_cf 0) X_cf)
           (mask_select (eq_mask T_cf 0) Y_cf) = Inr rf_0'"
       "random_forest_regressor_fit lib 10 (mask_select (eq_mask T_cf 1) X_cf)
           (mask_select (eq_mask T_cf 1) Y_cf) = Inr rf_1'"
    and g: "random_forest_regressor_fit lib 8 (mask_select (eq_mask T_cf 0) X_cf)
           (pseudo_control (predict lib rf_1' X_cf) Y_cf (eq_mask T_cf 0)) = Inr tau_0_model"
       "random_forest_regressor_fit lib 8 (mask_select (eq_mask T_cf 1) X_cf)
           (pseudo_treated (predict lib rf_0' X_cf) Y_cf (eq_mask T_cf 1)) = Inr tau_1_model"
    and h: "random_forest_classifier_fit lib 8 X_cf T_cf = Inr ps_model"
    and e: "predict_proba_1 lib ps_model X_cf = Inr e_x"
    and tau: "tau = combine e_x (predict lib tau_0_model X_cf) (predict lib tau_1_model X_cf)"
    by (rule x_learner_core_InrD)
  from f assms(2,3) have r: "rf_0' = rf_0" "rf_1' = rf_1" by simp_all
  have fits: "\<exists>tau_0_model tau_1_model ps_model e_x.
            random_forest_regressor_fit lib 8 (mask_select (eq_mask T_cf 0) X_cf)
              (pseudo_control (predict lib rf_1 X_cf) Y_cf (eq_mask T_cf 0)) = Inr tau_0_model \<and>
            random_forest_regressor_fit lib 8 (mask_select (eq_mask T_cf 1) X_cf)
              (pseudo_treated (predict lib rf_0 X_cf) Y_cf (eq_mask T_cf 1)) = Inr tau_1_model \<and>
            random_forest_classifier_fit lib 8 X_cf T_cf = Inr ps_model \<and>
            predict_proba_1 lib ps_model X_cf = Inr e_x \<and>
            tau = combine e_x (predict lib tau_0_model X_cf) (predict lib tau_1_model X_cf)"
    using g[unfolded r] h e tau by blast
  have l: "length (predict lib rf_1 X_cf) = length T_cf" "length (predict lib rf_0 X_cf) = length T_cf"
    using assms(4) by (simp_all add: predict_def)
  have n: "predict lib rf_1 X_cf ! i = forest_predict lib rf_1 (X_cf ! i)"
    "predict lib rf_0 X_cf ! i = forest_predict lib rf_0 (X_cf ! i)"
    using assms(4,6) by (simp_all add: predict_def)
  have rows: "length (pseudo_control (predict lib rf_1 X_cf) Y_cf (eq_mask T_cf 0))
           = length (filter (\<lambda>t. t = Some 0) T_cf) \<and>
         length (pseudo_treated (predict lib rf_0 X_cf) Y_cf (eq_mask T_cf 1))
           = length (filter (\<lambda>t. t = Some 1) T_cf) \<and>
         (T_cf ! i = Some 0 \<longrightarrow>
            pseudo_control (predict lib rf_1 X_cf) Y_cf (eq_mask T_cf 0)
              ! length (filter (\<lambda>t. t = Some 0) (take i T_cf))
            = fsub (Some (forest_predict lib rf_1 (X_cf ! i))) (Y_cf ! i)) \<and>
         (T_cf ! i = Some 1 \<longrightarrow>
            pseudo_treated (predict lib rf_0 X_cf) Y_cf (eq_mask T_cf 1)
              ! length (filter (\<lambda>t. t = Some 1) (take i T_cf))
            = fsub (Y_cf ! i) (Some (forest_predict lib rf_0 (X_cf ! i))))"
    using pseudo_control_nth[OF l(1) assms(5,6)] pseudo_treated_nth[OF l(2) assms(5,6)]
      pseudo_lengths(1)[OF l(1) assms(5), of 0] pseudo_lengths(2)[OF l(2) assms(5), of 1]
    by (simp add: n)
  from fits rows show ?thesis by (rule conjI)
qed

theorem pseudo_outcome_rows_witness:
  "x_learner_core lib_small
     [[Some 60, Some 1, Some 1], [Some 50, Some 0, Some 0], [Some 40, Some 1, Some 1], [Some 25, Some 0, Some 1]]
     [Some 11, Some 9, Some 12, Some 10] [Some 1, Some 1, Some 1, Some 0]
   = ([OutcomeControl, OutcomeTreated, EffectControl, EffectTreated, Propensity],
      Inr [319 / 240, 59 / 48, 271 / 240, 47 / 48]) \<and>
   [Some 1, Some 1, Some 1, Some (0::real)] ! 3 = Some 0 \<and>
   [Some 1, Some 1, Some 1, Some (0::real)] ! 1 = Some 1 \<and>
   pseudo_control
     (predict lib_small (32 / 3)
        [[Some 60, Some 1, Some 1], [Some 50, Some 0, Some 0], [Some 40, Some 1, Some 1], [Some 25, Some 0, Some 1]])
     [Some 11, Some 9, Some 12, Some 10] (eq_mask [Some 1, Some 1, Some 1, Some 0] 0) ! 0
     = Some (32 / 3 + 25 / 100 - 10) \<and>
   pseudo_treated
     (predict lib_small 10
        [[Some 60, Some 1, Some 1], [Some 50, Some 0, Some 0], [Some 40, Some 1, Some 1], [Some 25, Some 0, Some 1]])
     [Some 11, Some 9, Some 12, Some 10] (eq_mask [Some 1, Some 1, Some 1, Some 0] 1) ! 1
     = Some (9 - (10 + 50 / 100)) \<and>
   [319 / 240, 59 / 48, 271 / 240, 47 / 48] =
     combine [3 / 4, 3 / 4, 3 / 4, 3 / 4]
       (predict lib_small (11 / 12)
          [[Some 60, Some 1, Some 1], [Some 50, Some 0, Some 0], [Some 40, Some 1, Some 1], [Some 25, Some 0, Some 1]])
       (predict lib_small (1 / 6)
          [[Some 60, Some 1, Some 1], [Some 50, Some 0, Some 0], [Some 40, Some 1, Some 1], [Some 25, Some 0, Some 1]])"
proof -
  let ?X = "[[Some 60, Some 1, Some 1], [Some 50, Some 0, Some 0], [Some 40, Some 1, Some 1],
             [Some 25, Some 0, Some (1::real)]]"
  let ?Y = "[Some 11, Some 9, Some 12, Some (10::real)]"
  let ?T = "[Some 1, Some 1, Some 1, Some (0::real)]"
  have l: "length ?X = length ?T" "length ?Y = length ?T"
    by simp_all
  have i3: "3 < length ?T" and i1: "1 < length ?T" by simp_all
  note a = pseudo_outcome_rows[OF small_core small_rf_0 small_rf_1 l i3]
  note b = pseudo_outcome_rows[OF small_core small_rf_0 small_rf_1 l i1]
  from a obtain tau_0_model tau_1_model ps_model e_x where
    g0: "random_forest_regressor_fit lib_small 8 (mask_select (eq_mask ?T 0) ?X)
              (pseudo_control (predict lib_small (32 / 3) ?X) ?Y (eq_mask ?T 0)) = Inr tau_0_model"
    and g1: "random_forest_regressor_fit lib_small 8 (mask_select (eq_mask ?T 1) ?X)
              (pseudo_treated (predict lib_small 10 ?X) ?Y (eq_mask ?T 1)) = Inr tau_1_model"
    and ps: "random_forest_classifier_fit lib_small 8 ?X ?T = Inr ps_model"
    and e: "predict_proba_1 lib_small ps_model ?X = Inr e_x"
    and tau: "[319 / 240, 59 / 48, 271 / 240, 47 / 48] =
        combine e_x (predict lib_small tau_0_model ?X) (predict lib_small tau_1_model ?X)"
    by blast
  from g0 have m0: "tau_0_model = 11 / 12"
    by (simp only: small_pseudo_control small_tau_0 sum.inject)
  from g1 have m1: "tau_1_model = 1 / 6"
    by (simp only: small_pseudo_treated small_tau_1 sum.inject)
  from ps have p: "ps_model = 3 / 4" by (simp only: small_ps sum.inject)
  from e have ex: "e_x = [3 / 4, 3 / 4, 3 / 4, 3 / 4]"
    unfolding p by (simp add: predict_proba_1_def lib_small_def stub_forest)
  have c: "[319 / 240, 59 / 48, 271 / 240, 47 / 48] =
     combine [3 / 4, 3 / 4, 3 / 4, 3 / 4] (predict lib_small (11 / 12) ?X) (predict lib_small (1 / 6) ?X)"
    using tau unfolding m0 m1 ex .
  have d0: "pseudo_control (predict lib_small (32 / 3) ?X) ?Y (eq_mask ?T 0) ! 0
     = Some (32 / 3 + 25 / 100 - 10)"
    using a by (simp add: fsub_def lib_small_def stub_forest notna_values_def)
  have d1: "pseudo_treated (predict lib_small 10 ?X) ?Y (eq_mask ?T 1) ! 1
     = Some (9 - (10 + 50 / 100))"
    using b by (simp add: fsub_def lib_small_def stub_forest notna_values_def)
  have t: "?T ! 3 = Some 0" "?T ! 1 = Some 1" by simp_all
  from small_core t d0 d1 c show ?thesis by (intro conjI)
qed

text \<open>
  C7.  The final fit asks statsmodels for the cluster-robust covariance, with the
  \<open>region\<close> column as groups, whenever the frame has a \<open>region\<close> column, and for
  the HC1 covariance otherwise; the reported standard error is the one of that fit, and
  the reported interval is the coefficient minus and plus 1.96 standard errors.
\<close>

theorem final_fit_covariance_and_interval:
  assumes "final_ols lib df cc Y D U = Inr r"
    and "final_design df D (map ((!) cc) U) = Inr X_final"
  shows "(''region'' \<in> set (columns df) \<longrightarrow>
            (\<exists>clusters. values_of df ''region'' = Inr clusters \<and>
               coefficient r = params (ols_fit lib (Cluster clusters) X_final Y) ! 1 \<and>
               std_error r = bse (ols_fit lib (Cluster clusters) X_final Y) ! 1)) \<and>
         (''region'' \<notin> set (columns df) \<longrightarrow>
            coefficient r = params (ols_fit lib HC1 X_final Y) ! 1 \<and>
            std_error r = bse (ols_fit lib HC1 X_final Y) ! 1) \<and>
         ci_lower r = coefficient r - 196 / 100 * std_error r \<and>
         ci_upper r = coefficient r + 196 / 100 * std_error r"
proof -
  from assms(1) obtain X_final' cov where
    fd: "final_design df D (map ((!) cc) U) = Inr X_final'"
    and cov: "covariance_choice df = Inr cov"
    and r: "r = \<lparr>method_name = ''Post-Double-Selection LASSO'',
          coefficient = params (ols_fit lib cov X_final' Y) ! 1,
          std_error = bse (ols_fit lib cov X_final' Y) ! 1,
          p_value = pvalues (ols_fit lib cov X_final' Y) ! 1,
          ci_lower = params (ols_fit lib cov X_final' Y) ! 1 - 196 / 100 * bse (ols_fit lib cov X_final' Y) ! 1,
          ci_upper = params (ols_fit lib cov X_final' Y) ! 1 + 196 / 100 * bse (ols_fit lib cov X_final' Y) ! 1,
          n_controls_selected = length U,
          controls_selected = join_comma (take 20 (map ((!) cc) U)),
          n_obs = length Y\<rparr>"
    by (rule final_ols_InrD)
  from fd assms(2) have X: "X_final' = X_final" by simp
  show ?thesis
  proof (cases "''region'' \<in> set (columns df)")
    case True
    with cov obtain clusters where "values_of df ''region'' = Inr clusters" "cov = Cluster clusters"
      by (auto simp: covariance_choice_def bind_err_Inr_iff)
    with True show ?thesis unfolding r X by simp
  next
    case False
    with cov have "cov = HC1" by (simp add: covariance_choice_def)
    with False show ?thesis unfolding r X by simp
  qed
qed


theorem final_fit_covariance_and_interval_witness:
  "final_ols lib_small df_small [''agri'', ''post'', ''age'', ''female'']
      [Some 10, Some 12, Some 9, Some 11] [Some 0, Some 1, Some 0, Some 1] [1, 2] =
     Inr \<lparr>method_name = ''Post-Double-Selection LASSO'', coefficient = 2, std_error = 1,
          p_value = 1 / 20, ci_lower = 1 / 25, ci_upper = 99 / 25, n_controls_selected = 2,
          controls_selected = ''post, age'', n_obs = 4\<rparr> \<and>
   ''region'' \<in> set (columns df_small) \<and>
   values_of df_small ''region'' = Inr [Some 1, Some 1, Some 2, Some 2] \<and>
   (1::real) = bse (stub_ols (Cluster [Some 1, Some 1, Some 2, Some 2])
        [[Some 1, Some 1, Some 1, Some 1], [Some 0, Some 1, Some 0, Some 1],
         [Some 1, Some 1, Some 0, Some 1], [Some 25, Some 40, Some 50, Some 60]]
        [Some 10, Some 12, Some 9, Some 11]) ! 1 \<and>
   (1 / 25::real) = 2 - 196 / 100 * 1 \<and> (99 / 25::real) = 2 + 196 / 100 * 1 \<and>
   final_ols lib_small df_no_region [''agri'', ''post'', ''age'', ''female'']
      [Some 10, Some 12, Some 9, Some 11] [Some 0, Some 1, Some 0, Some 1] [1, 2] =
     Inr \<lparr>method_name = ''Post-Double-Selection LASSO'', coefficient = 2, std_error = 1 / 2,
          p_value = 1 / 20, ci_lower = 51 / 50, ci_upper = 149 / 50, n_controls_selected = 2,
          controls_selected = ''post, age'', n_obs = 4\<rparr> \<and>
   ''region'' \<notin> set (columns df_no_region) \<and>
   (1 / 2::real) = bse (stub_ols HC1
        [[Some 1, Some 1, Some 1, Some 1], [Some 0, Some 1, Some 0, Some 1],
         [Some 1, Some 1, Some 0, Some 1], [Some 25, Some 40, Some 50, Some 60]]
        [Some 10, Some 12, Some 9, Some 11]) ! 1 \<and>
   (51 / 50::real) = 2 - 196 / 100 * (1 / 2) \<and> (149 / 50::real) = 2 + 196 / 100 * (1 / 2)"
proof -
  note a = final_fit_covariance_and_interval[OF df_small_final_ols df_small_final_design]
  note b = final_fit_covariance_and_interval[OF df_no_region_final_ols df_no_region_final_design]
  from a df_small_region df_small_region_values
  have "(1::real) = bse (stub_ols (Cluster [Some 1, Some 1, Some 2, Some 2])
        [[Some 1, Some 1, Some 1, Some 1], [Some 0, Some 1, Some 0, Some 1],
         [Some 1, Some 1, Some 0, Some 1], [Some 25, Some 40, Some 50, Some 60]]
        [Some 10, Some 12, Some 9, Some 11]) ! 1"
    by (simp add: lib_small_def stub_fits)
  moreover from b df_no_region_region
  have "(1 / 2::real) = bse (stub_ols HC1
        [[Some 1, Some 1, Some 1, Some 1], [Some 0, Some 1, Some 0, Some 1],
         [Some 1, Some 1, Some 0, Some 1], [Some 25, Some 40, Some 50, Some 60]]
        [Some 10, Some 12, Some 9, Some 11]) ! 1"
    by (simp add: lib_small_def stub_fits)
  moreover from a have "(1 / 25::real) = 2 - 196 / 100 * 1 \<and> (99 / 25::real) = 2 + 196 / 100 * 1"
    by simp
  moreover from b have "(51 / 50::real) = 2 - 196 / 100 * (1 / 2) \<and> (149 / 50::real) = 2 + 196 / 100 * (1 / 2)"
    by simp
  ultimately show ?thesis
    using df_small_region df_no_region_region df_small_region_values
      df_small_final_ols df_no_region_final_ols
    by simp
qed

text \<open>
  C8 (amended).  A position is in the selected set exactly when the magnitude of its fitted
  coefficient exceeds \<open>1e-6\<close>.  Every selected coefficient is therefore nonzero and an
  exact zero is never selected, but a nonzero coefficient of magnitude at most \<open>1e-6\<close>
  is not selected.
\<close>

theorem selected_iff_above_tolerance:
  "(i \<in> set (selected coef) \<longleftrightarrow> i < length coef \<and> \<bar>coef ! i\<bar> > 1 / 1000000) \<and>
   (i \<in> set (selected coef) \<longrightarrow> coef ! i \<noteq> 0) \<and>
   (i < length coef \<and> coef ! i \<noteq> 0 \<and> \<bar>coef ! i\<bar> \<le> 1 / 1000000 \<longrightarrow> i \<notin> set (selected coef))"
  by (auto simp: selected_def)

theorem selected_iff_above_tolerance_witness:
  "2 \<in> set (selected coef_d_small) \<and> coef_d_small ! 2 \<noteq> 0 \<and>
   0 < length coef_d_small \<and> coef_d_small ! 0 \<noteq> 0 \<and> \<bar>coef_d_small ! 0\<bar> \<le> 1 / 1000000 \<and>
   0 \<notin> set (selected coef_d_small)"
proof -
  have a: "2 \<in> set (selected coef_d_small)" by code_simp
  have b: "0 < length coef_d_small \<and> coef_d_small ! 0 \<noteq> 0 \<and> \<bar>coef_d_small ! 0\<bar> \<le> 1 / 1000000"
    by (simp add: coef_d_small_def)
  from selected_iff_above_tolerance[of 2 coef_d_small] a have "coef_d_small ! 2 \<noteq> 0" by blast
  moreover from selected_iff_above_tolerance[of 0 coef_d_small] b
  have "0 \<notin> set (selected coef_d_small)" by blast
  ultimately show ?thesis using a b by simp
qed

theorem selected_iff_nonzero_counterexample:
  "0 < length coef_d_small \<and> coef_d_small ! 0 \<noteq> 0 \<and> 0 \<notin> set (selected coef_d_small)"
  by (simp add: coef_d_small_def selected_def)

text \<open>
  C10.  A successful X-learner run works on the rows of the cleaned frame at the
  positions that \<open>np.random.choice(N, min(30000, N), replace=False)\<close> returns after
  \<open>np.random.seed(42)\<close>, in the order drawn.  These are \<open>min(30000, N)\<close> different
  positions below \<open>N\<close>, so exactly \<open>min(30000, N)\<close> of the \<open>N\<close> rows are used and the
  other \<open>N - min(30000, N)\<close> rows get no estimate.  The effect array has one entry per
  drawn row; the reported number of observations is \<open>min(30000, N)\<close>; the reported
  mean, standard deviation, median and 10th, 25th, 75th and 90th percentiles are those
  of that array; the subgroup summaries are taken over the groups of rows of the
  subsample.  This holds whichever positions the generator draws; that it draws each
  subset with the same probability is a property of numpy's generator alone.
\<close>

theorem x_learner_on_subsample:
  assumes "x_learner lib df = (fitted, Inr r)"
    and "prepare_cf lib df = Inr (df_cf, X_cf, Y_cf, T_cf)"
  shows "sample_idx lib df = Rep_draw (random_choice lib) 42 (nrows df) (min 30000 (nrows df)) \<and>
         length (sample_idx lib df) = min 30000 (nrows df) \<and>
         distinct (sample_idx lib df) \<and>
         set (sample_idx lib df) \<subseteq> {..<nrows df} \<and>
         card (set (sample_idx lib df)) = min 30000 (nrows df) \<and>
         card ({..<nrows df} - set (sample_idx lib df)) = nrows df - min 30000 (nrows df) \<and>
         df_cf = map (\<lambda>(c, cl). (c, cl\<lparr>col_cells := map (\<lambda>i. col_cells cl ! i) (sample_idx lib df)\<rparr>)) df \<and>
         values_rows df_cf (hetero_vars df_cf) = Inr X_cf \<and>
         length X_cf = min 30000 (nrows df) \<and>
         x_learner_core lib X_cf Y_cf T_cf = (fitted, Inr (tau_hat r)) \<and>
         length (tau_hat r) = min 30000 (nrows df) \<and>
         cf_n_obs r = min 30000 (nrows df) \<and>
         mean_tau r = mean (tau_hat r) \<and>
         std_tau r = np_std lib (tau_hat r) \<and>
         median_tau r = np_median lib (tau_hat r) \<and>
         p10_tau r = np_percentile lib (tau_hat r) 10 \<and>
         p25_tau r = np_percentile lib (tau_hat r) 25 \<and>
         p75_tau r = np_percentile lib (tau_hat r) 75 \<and>
         p90_tau r = np_percentile lib (tau_hat r) 90 \<and>
         (\<exists>age female post.
            values_of df_cf ''age'' = Inr age \<and> values_of df_cf ''female'' = Inr female \<and>
            values_of df_cf ''post'' = Inr post \<and>
            by_age r = map (\<lambda>(lo, hi). subgroup_summary lib (range_mask age lo hi) (tau_hat r))
                         [(18, 30), (30, 45), (45, 55), (55, 65)] \<and>
            by_gender r = map (\<lambda>g. subgroup_summary lib (eq_mask female g) (tau_hat r)) [0, 1] \<and>
            by_period r = map (\<lambda>p. subgroup_summary lib (eq_mask post p) (tau_hat r)) [0, 1]) \<and>
         summarise lib df_cf (tau_hat r) = Inr r"
proof -
  let ?idx = "sample_idx lib df"
  have idx: "?idx = Rep_draw (random_choice lib) 42 (nrows df) (min 30000 (nrows df))"
    by (simp add: sample_idx_def n_sample_def)
  note s = sample_idx_props[of lib df]
  note p = prepare_cf_InrD[OF assms(2)]
  from p(1) have cf: "df_cf = map (\<lambda>(c, cl). (c, cl\<lparr>col_cells := map (\<lambda>i. col_cells cl ! i) ?idx\<rparr>)) df"
    by (simp add: subsample_total)
  have card: "card (set ?idx) = min 30000 (nrows df)"
    using s(1,2) by (simp add: distinct_card)
  have rest: "card ({..<nrows df} - set ?idx) = nrows df - min 30000 (nrows df)"
    using s(3) card by (rule card_unsampled)
  have "df_cf \<noteq> []" using p(2) by (rule values_of_nonempty)
  then have "df \<noteq> []" using cf by auto
  then have n: "nrows df_cf = length ?idx" unfolding cf by (rule nrows_iloc)
  have lenX: "length X_cf = min 30000 (nrows df)"
    using values_rows_length[OF p(4)] n s(1) by simp
  from assms obtain tau where core: "x_learner_core lib X_cf Y_cf T_cf = (fitted, Inr tau)"
    and sm: "summarise lib df_cf tau = Inr r"
    by (rule x_learner_InrD)
  from summarise_Inr[OF sm] have t: "tau_hat r = tau" by simp
  note f = summarise_Inr[OF sm, unfolded t[symmetric]]
  have lent: "length (tau_hat r) = min 30000 (nrows df)"
    using x_learner_core_length[OF core] lenX by (simp add: t)
  have groups: "\<exists>age female post.
            values_of df_cf ''age'' = Inr age \<and> values_of df_cf ''female'' = Inr female \<and>
            values_of df_cf ''post'' = Inr post \<and>
            by_age r = map (\<lambda>(lo, hi). subgroup_summary lib (range_mask age lo hi) (tau_hat r))
                         [(18, 30), (30, 45), (45, 55), (55, 65)] \<and>
            by_gender r = map (\<lambda>g. subgroup_summary lib (eq_mask female g) (tau_hat r)) [0, 1] \<and>
            by_period r = map (\<lambda>p. subgroup_summary lib (eq_mask post p) (tau_hat r)) [0, 1]"
    using summarise_subgroups[OF sm] unfolding t by metis
  have c: "cf_n_obs r = min 30000 (nrows df)" using f lent by simp
  from idx s(1,2,3) card rest cf p(4) lenX core[folded t] lent c f groups sm[folded t]
  show ?thesis by (intro conjI) simp_all
qed

theorem x_learner_on_subsample_witness:
  "nrows df_big = 30001 \<and>
   values_of df_big ''ln_wage'' = Inr (Some 1000 # replicate 30000 (Some 10)) \<and>
   values_of df_big ''age'' = Inr (Some 20 # replicate 30000 (Some 40)) \<and>
   x_learner lib_small df_big =
     ([OutcomeControl, OutcomeTreated, EffectControl, EffectTreated, Propensity],
      Inr \<lparr>tau_hat = replicate 30000 (29999 / 37500), mean_tau = 29999 / 37500, std_tau = 0,
          median_tau = 29999 / 37500, p10_tau = 29999 / 37500, p25_tau = 29999 / 37500,
          p75_tau = 29999 / 37500, p90_tau = 29999 / 37500, cf_n_obs = 30000,
          by_age = [None, Some (29999 / 37500, Some 0, 30000), None, None],
          by_gender = [Some (29999 / 37500, Some 0, 30000), None],
          by_period = [None, Some (29999 / 37500, Some 0, 30000)]\<rparr>) \<and>
   prepare_cf lib_small df_big =
     Inr (df_big_cf, replicate 30000 [Some 40, Some 0, Some 1], replicate 30000 (Some 10),
          Some 0 # replicate 29999 (Some 1)) \<and>
   length (sample_idx lib_small df_big) = 30000 \<and>
   distinct (sample_idx lib_small df_big) \<and>
   card (set (sample_idx lib_small df_big)) = 30000 \<and>
   card ({..<nrows df_big} - set (sample_idx lib_small df_big)) = 1 \<and>
   0 \<notin> set (sample_idx lib_small df_big) \<and>
   length (replicate 30000 (29999 / 37500 :: real)) = 30000"
proof -
  note t = x_learner_on_subsample[OF big_x_learner df_big_prepare]
  from t have l: "length (sample_idx lib_small df_big) = min 30000 (nrows df_big)"
    and d: "distinct (sample_idx lib_small df_big)"
    and a: "card (set (sample_idx lib_small df_big)) = min 30000 (nrows df_big)"
    and b: "card ({..<nrows df_big} - set (sample_idx lib_small df_big))
              = nrows df_big - min 30000 (nrows df_big)"
    by blast+
  have m: "min 30000 (nrows df_big) = 30000" "nrows df_big - min 30000 (nrows df_big) = 1"
    by (simp_all add: df_big_nrows)
  have z: "0 \<notin> set (sample_idx lib_small df_big)"
    unfolding sample_idx_def lib_small_def
    by (rule stub_draw_leaves_out) (simp add: df_big_n_sample)
  have e: "length (replicate 30000 (29999 / 37500 :: real)) = 30000" by simp
  from b have b': "card ({..<nrows df_big} - set (sample_idx lib_small df_big)) = 1"
    by (simp only: m(2))
  from df_big_nrows df_big_row_0 big_x_learner df_big_prepare l[unfolded m] d a[unfolded m]
    b' z e
  show ?thesis by (intro conjI)
qed

end
